theory Spec2Isabelle
  imports
    Main
    "HOL-Library.Word"
    "HOL-Library.Mapping"
    "HOL-Library.Char_ord"
    "HOL-Library.List_Lexorder"
    "HOL-Library.Multiset"
begin

section \<open>The test hardware manager plugin: allocation ledger and NodePool reconciliation\<close>

text \<open>
  The development embeds the service of \<^verbatim>\<open>internal/service/hwmgr.go\<close> (in its two
  revisions: the earlier one with \<^verbatim>\<open>CreateNodePool\<close>, and the later one with
  \<^verbatim>\<open>ProcessNewNodePool\<close> and the BMC secrets) and the reconciler of
  \<^verbatim>\<open>internal/controller/hardwaremanagement/nodepool_controller.go\<close>.

  Conventions of the embedding.
  \<^item> A Go \<^verbatim>\<open>map[string]T\<close> is a \<open>(string, T) mapping\<close>; a read of a missing key gives
    the zero value (\<open>Mapping.lookup_default\<close>), or is tested with \<open>Mapping.lookup\<close>
    where the source uses the two-valued form. A map that may be \<^verbatim>\<open>nil\<close> when it is
    written to is an optional mapping: reading \<^verbatim>\<open>nil\<close> is reading the empty map, and
    an assignment to an entry of \<^verbatim>\<open>nil\<close> panics.
  \<^item> The order in which \<^verbatim>\<open>range\<close> walks a Go map is chosen by the runtime, afresh for
    every loop. It is an explicit argument: the list of keys in the order of the walk.
  \<^item> A Go \<^verbatim>\<open>int\<close> is a 64-bit two's complement word; \<open>sint\<close> reads it. \<^verbatim>\<open>len\<close> of
    a slice is its length.
  \<^item> Every answer of the Kubernetes API server to a write is read from a record of
    answers (\<open>k8s\<close>), as a function of the request. The persisted state that the service
    reads back is the \<^verbatim>\<open>nodelist\<close> ConfigMap; the accepted writes are kept in a journal.
  \<^item> An error return is a value of the datatype \<open>error\<close>; \<open>Error\<close> renders it as the
    \<^verbatim>\<open>fmt.Errorf\<close> chain of the source does.
\<close>

subsection \<open>Data of the nodelist ConfigMap\<close>

record cmBmcInfo =
  Address :: string
  UsernameBase64 :: string
  PasswordBase64 :: string

record cmNodeInfo =
  HwProfile :: string
  BMC :: "cmBmcInfo option"
  BootMACAddress :: string
  Hostname :: string

record cmResources =
  HwProfiles :: "string list"
  Nodes :: "(string, cmNodeInfo) mapping"

text \<open>
  \<^verbatim>\<open>Nodegroups\<close> is \<open>None\<close> for the \<^verbatim>\<open>nil\<close> map of an entry that was parsed without
  a \<^verbatim>\<open>nodegroups\<close> key.
\<close>

record cmAllocatedCloud =
  CloudID :: string
  Nodegroups :: "(string, string list) mapping option"

record cmAllocations =
  Clouds :: "cmAllocatedCloud list"

text \<open>
  Modelled from the spec: the text of the two ConfigMap keys and the YAML parser behind
  \<^verbatim>\<open>utils.ExtractDataFromConfigMap\<close> (package \<^verbatim>\<open>internal/controller/utils\<close>) are
  not part of the sources at hand. A key is kept as the result of extracting it: the
  parsed value, or the message of the failure when the key is absent or malformed.
\<close>

record ConfigMap =
  resourcesData :: "string + cmResources"
  allocationsData :: "string + cmAllocations"

subsection \<open>The NodePool request\<close>

type_synonym go_int = "64 word"

record NodeGroup =
  Name :: string
  GroupHwProfile :: string
  Size :: go_int

datatype ConditionStatus = ConditionTrue | ConditionFalse | ConditionUnknown

record Condition =
  Type :: string
  Status :: ConditionStatus
  Reason :: string
  Message :: string

record NodePool =
  ObjectName :: string
  SpecCloudID :: string
  SpecNodeGroup :: "NodeGroup list"
  StatusConditions :: "Condition list"
  StatusNodeNames :: "string list"

definition Provisioned :: string where "Provisioned = ''Provisioned''"
definition InProgress :: string where "InProgress = ''InProgress''"
definition Completed :: string where "Completed = ''Completed''"
definition Failed :: string where "Failed = ''Failed''"

subsection \<open>Errors\<close>

datatype status_reason = NotFound | Conflict | AlreadyExists | ServerError

datatype api_error = StatusError status_reason string

fun IgnoreNotFound :: "api_error option \<Rightarrow> api_error option" where
  "IgnoreNotFound None = None"
| "IgnoreNotFound (Some (StatusError r m)) =
     (if r = NotFound then None else Some (StatusError r m))"

datatype error =
    UnableToGetConfigmap api_error
  | UnableToParseResources string
  | UnableToGetCurrentResources error
  | NotEnoughFreeResources string nat
  | NotEnoughFreeResourcesRemaining string
  | UnableToFindNodeinfo string
  | FailedToCreateBmcSecretWhenAllocating string error
  | FailedToUpdateConfigmap api_error
  | FailedToCreateAllocatedNode string error
  | FailedToUpdateNodeStatus string error
  | FailedToDecodeString string string string
  | FailedToCreateBmcSecretForNode string api_error
  | FailedToDeleteBmcSecretForNode string api_error
  | FailedToCreateNode api_error
  | FailedToGetNode api_error
  | FailedToUpdateStatusForNode string api_error
  | FailedToDeleteNode api_error
  | FailedToDeleteBmcSecretFor string error
  | FailedToDeleteNodeNamed string error
  | FailedToCheckNodepoolAllocation error
  | FailedToAllocateNode error
  | FailedCheckNodePoolProgress error
  | FailedToGetAllocatedNodes string error
  | FailedToUpdateStatusForNodePool string api_error
  | FailedToReleaseNodepool string error
  | FinalizerFailed error
  | NilPointerDereference
  | IndexOutOfRange
  | AssignmentToEntryInNilMap

function string_of_nat :: "nat \<Rightarrow> string" where
  "string_of_nat n =
     (if n < 10 then [char_of (48 + n)]
      else string_of_nat (n div 10) @ [char_of (48 + n mod 10)])"
  by pat_completeness auto
termination
  by (relation "measure id") auto

declare string_of_nat.simps [simp del]

fun api_message :: "api_error \<Rightarrow> string" where
  "api_message (StatusError r m) = m"

fun Error :: "error \<Rightarrow> string" where
  "Error (UnableToGetConfigmap e) = ''unable to get configmap: '' @ api_message e"
| "Error (UnableToParseResources m) = ''unable to parse resources from configmap: '' @ m"
| "Error (UnableToGetCurrentResources e) = ''unable to get current resources: '' @ Error e"
| "Error (NotEnoughFreeResources p n) =
     ''not enough free resources in group '' @ p @ '': freenodes='' @ string_of_nat n"
| "Error (NotEnoughFreeResourcesRemaining p) =
     ''not enough free resources remaining in group '' @ p"
| "Error (UnableToFindNodeinfo n) = ''unable to find nodeinfo for '' @ n"
| "Error (FailedToCreateBmcSecretWhenAllocating n e) =
     ''failed to create bmc-secret when allocating node '' @ n @ '': '' @ Error e"
| "Error (FailedToUpdateConfigmap e) = ''failed to update configmap: '' @ api_message e"
| "Error (FailedToCreateAllocatedNode n e) =
     ''failed to create allocated node ('' @ n @ ''): '' @ Error e"
| "Error (FailedToUpdateNodeStatus n e) =
     ''failed to update node status ('' @ n @ ''): '' @ Error e"
| "Error (FailedToDecodeString s n m) =
     ''failed to decode usernameBase64 string ('' @ s @ '') for node '' @ n @ '': '' @ m"
| "Error (FailedToCreateBmcSecretForNode n e) =
     ''failed to create bmc-secret for node '' @ n @ '': '' @ api_message e"
| "Error (FailedToDeleteBmcSecretForNode n e) =
     ''failed to delete bmc-secret for node '' @ n @ '': '' @ api_message e"
| "Error (FailedToCreateNode e) = ''failed to create Node: '' @ api_message e"
| "Error (FailedToGetNode e) = ''failed to create Node: '' @ api_message e"
| "Error (FailedToUpdateStatusForNode n e) =
     ''failed to update status for node '' @ n @ '': '' @ api_message e"
| "Error (FailedToDeleteNode e) = ''failed to delete Node: '' @ api_message e"
| "Error (FailedToDeleteBmcSecretFor n e) =
     ''failed to delete bmc-secret for '' @ n @ '': '' @ Error e"
| "Error (FailedToDeleteNodeNamed n e) = ''failed to delete node '' @ n @ '': '' @ Error e"
| "Error (FailedToCheckNodepoolAllocation e) =
     ''failed to check nodepool allocation: '' @ Error e"
| "Error (FailedToAllocateNode e) = ''failed to allocate node: '' @ Error e"
| "Error (FailedCheckNodePoolProgress e) = ''failed CheckNodePoolProgress: '' @ Error e"
| "Error (FailedToGetAllocatedNodes n e) =
     ''failed to get allocated nodes for '' @ n @ '': '' @ Error e"
| "Error (FailedToUpdateStatusForNodePool n e) =
     ''failed to update status for NodePool '' @ n @ '': '' @ api_message e"
| "Error (FailedToReleaseNodepool n e) = ''failed to release nodepool '' @ n @ '': '' @ Error e"
| "Error (FinalizerFailed e) = ''finalizer failed: '' @ Error e"
| "Error NilPointerDereference =
     ''runtime error: invalid memory address or nil pointer dereference''"
| "Error IndexOutOfRange = ''runtime error: index out of range''"
| "Error AssignmentToEntryInNilMap = ''assignment to entry in nil map''"

subsection \<open>The cluster and the answers of the API server\<close>

datatype event =
    SecretApplied string string string
  | ConfigMapUpdated cmAllocations
  | NodeCreated string string string string
  | NodeStatusUpdated string cmNodeInfo
  | SecretDeleted string
  | NodeDeleted string
  | NodePoolStatusUpdated NodePool

text \<open>
  Modelled from the spec: \<^verbatim>\<open>utils.GetConfigmap\<close> is not part of the sources at hand;
  \<open>nodelist\<close> is what it answers for the ConfigMap \<^verbatim>\<open>nodelist\<close>: the object, or the
  error of the read (\<open>NotFound\<close> when the document is absent).
\<close>

record cluster =
  nodelist :: "api_error + ConfigMap"
  journal :: "event list"

record k8s =
  rangeNodes :: "cmAllocations \<Rightarrow> string \<Rightarrow> string list"
  rangeNodegroups :: "cmAllocatedCloud \<Rightarrow> string list"
  decodeBase64 :: "string \<Rightarrow> string + string"
  applySecret :: "string \<Rightarrow> api_error option"
  updateConfigMap :: "cmAllocations \<Rightarrow> api_error option"
  createNode :: "string \<Rightarrow> api_error option"
  getNode :: "string \<Rightarrow> api_error option"
  updateNodeStatus :: "string \<Rightarrow> api_error option"
  deleteSecret :: "string \<Rightarrow> api_error option"
  deleteNode :: "string \<Rightarrow> api_error option"
  updateNodePoolStatus :: "NodePool \<Rightarrow> api_error option"

definition record_event :: "event \<Rightarrow> cluster \<Rightarrow> cluster" where
  "record_event ev cl = cl\<lparr>journal := journal cl @ [ev]\<rparr>"

subsection \<open>The nodes of a group\<close>

text \<open>
  \<^verbatim>\<open>cloud.Nodegroups[groupname]\<close>: the slice of node names that the entry of a cloud
  records under a group, the empty slice when the map has no such key or is \<^verbatim>\<open>nil\<close>;
  and the keys that a \<^verbatim>\<open>range\<close> over the map visits.
\<close>

definition groupNodes :: "cmAllocatedCloud \<Rightarrow> string \<Rightarrow> string list" where
  "groupNodes cloud groupname =
     (case Nodegroups cloud of
        None \<Rightarrow> []
      | Some groups \<Rightarrow> Mapping.lookup_default [] groups groupname)"

definition groupKeys :: "cmAllocatedCloud \<Rightarrow> string set" where
  "groupKeys cloud =
     (case Nodegroups cloud of
        None \<Rightarrow> {}
      | Some groups \<Rightarrow> Mapping.keys groups)"

subsection \<open>Free nodes of a profile\<close>

text \<open>
  \<open>inuse\<close> is the set built by the first loop of \<^verbatim>\<open>getFreeNodesInProfile\<close>: every node
  name listed under any group of any cloud of the ledger.
\<close>

definition inuse :: "cmAllocations \<Rightarrow> string set" where
  "inuse allocations =
     (\<Union>cloud \<in> set (Clouds allocations).
        \<Union>groupname \<in> groupKeys cloud.
          set (groupNodes cloud groupname))"

text \<open>
  The second loop walks \<^verbatim>\<open>resources.Nodes\<close>; \<open>iter\<close> is the order of that walk. A
  name of \<open>iter\<close> that is no key of the map is never visited.
\<close>

definition getFreeNodesInProfile ::
  "string list \<Rightarrow> cmResources \<Rightarrow> cmAllocations \<Rightarrow> string \<Rightarrow> string list" where
  "getFreeNodesInProfile iter resources allocations profname =
     filter (\<lambda>nodename.
        case Mapping.lookup (Nodes resources) nodename of
          None \<Rightarrow> False
        | Some node \<Rightarrow> HwProfile node = profname \<and> nodename \<notin> inuse allocations) iter"

text \<open>A walk of a map visits every key once.\<close>

definition range_of :: "string list \<Rightarrow> (string, 'v) mapping \<Rightarrow> bool" where
  "range_of iter m \<longleftrightarrow> distinct iter \<and> set iter = Mapping.keys m"

subsection \<open>Reading the inventory\<close>

definition GetCurrentResources ::
  "cluster \<Rightarrow> error + (ConfigMap \<times> cmResources \<times> cmAllocations)" where
  "GetCurrentResources cl =
     (case nodelist cl of
        Inl e \<Rightarrow> Inl (UnableToGetConfigmap e)
      | Inr cm \<Rightarrow>
          (case resourcesData cm of
             Inl m \<Rightarrow> Inl (UnableToParseResources m)
           | Inr resources \<Rightarrow>
               (case allocationsData cm of
                  Inl m \<Rightarrow> Inr (cm, resources, \<lparr>Clouds = []\<rparr>)
                | Inr allocations \<Rightarrow> Inr (cm, resources, allocations))))"

subsection \<open>Admission: enough free nodes for every group\<close>

fun enoughFree ::
  "k8s \<Rightarrow> cmResources \<Rightarrow> cmAllocations \<Rightarrow> NodeGroup list \<Rightarrow> error option" where
  "enoughFree api resources allocations [] = None"
| "enoughFree api resources allocations (nodegroup # rest) =
     (let freenodes = getFreeNodesInProfile
            (rangeNodes api allocations (GroupHwProfile nodegroup))
            resources allocations (GroupHwProfile nodegroup)
      in if sint (Size nodegroup) > int (length freenodes)
         then Some (NotEnoughFreeResources (GroupHwProfile nodegroup) (length freenodes))
         else enoughFree api resources allocations rest)"

definition ProcessNewNodePool :: "k8s \<Rightarrow> NodePool \<Rightarrow> cluster \<Rightarrow> error option" where
  "ProcessNewNodePool api nodepool cl =
     (case GetCurrentResources cl of
        Inl e \<Rightarrow> Some (UnableToGetCurrentResources e)
      | Inr (cm, resources, allocations) \<Rightarrow>
          enoughFree api resources allocations (SpecNodeGroup nodepool))"

definition CreateNodePool :: "k8s \<Rightarrow> NodePool \<Rightarrow> cluster \<Rightarrow> error option" where
  "CreateNodePool api nodepool cl =
     (case GetCurrentResources cl of
        Inl e \<Rightarrow> Some (UnableToGetCurrentResources e)
      | Inr (cm, resources, allocations) \<Rightarrow>
          enoughFree api resources allocations (SpecNodeGroup nodepool))"

subsection \<open>BMC secrets and Node objects\<close>

definition bmcSecretName :: "string \<Rightarrow> string" where
  "bmcSecretName nodename = nodename @ ''-bmc-secret''"

definition CreateBMCSecret ::
  "k8s \<Rightarrow> string \<Rightarrow> string \<Rightarrow> string \<Rightarrow> cluster \<Rightarrow> error option \<times> cluster" where
  "CreateBMCSecret api nodename usernameBase64 passwordBase64 cl =
     (case decodeBase64 api usernameBase64 of
        Inl m \<Rightarrow> (Some (FailedToDecodeString usernameBase64 nodename m), cl)
      | Inr username \<Rightarrow>
          (case decodeBase64 api passwordBase64 of
             Inl m \<Rightarrow> (Some (FailedToDecodeString passwordBase64 nodename m), cl)
           | Inr password \<Rightarrow>
               (case applySecret api (bmcSecretName nodename) of
                  Some e \<Rightarrow> (Some (FailedToCreateBmcSecretForNode nodename e), cl)
                | None \<Rightarrow>
                    (None,
                     record_event (SecretApplied (bmcSecretName nodename) username password) cl))))"

definition DeleteBMCSecret :: "k8s \<Rightarrow> string \<Rightarrow> cluster \<Rightarrow> error option \<times> cluster" where
  "DeleteBMCSecret api nodename cl =
     (case deleteSecret api (bmcSecretName nodename) of
        None \<Rightarrow> (None, record_event (SecretDeleted (bmcSecretName nodename)) cl)
      | Some e \<Rightarrow>
          (case IgnoreNotFound (Some e) of
             None \<Rightarrow> (None, cl)
           | Some e' \<Rightarrow> (Some (FailedToDeleteBmcSecretForNode nodename e'), cl)))"

definition CreateNode ::
  "k8s \<Rightarrow> string \<Rightarrow> string \<Rightarrow> string \<Rightarrow> string \<Rightarrow> cluster \<Rightarrow> error option \<times> cluster" where
  "CreateNode api cloudID nodename groupname hwprofile cl =
     (case createNode api nodename of
        Some e \<Rightarrow> (Some (FailedToCreateNode e), cl)
      | None \<Rightarrow> (None, record_event (NodeCreated nodename cloudID groupname hwprofile) cl))"

definition UpdateNodeStatus ::
  "k8s \<Rightarrow> string \<Rightarrow> cmNodeInfo \<Rightarrow> cluster \<Rightarrow> error option \<times> cluster" where
  "UpdateNodeStatus api nodename info cl =
     (case getNode api nodename of
        Some e \<Rightarrow> (Some (FailedToGetNode e), cl)
      | None \<Rightarrow>
          (case BMC info of
             None \<Rightarrow> (Some NilPointerDereference, cl)
           | Some bmc \<Rightarrow>
               (case updateNodeStatus api nodename of
                  Some e \<Rightarrow> (Some (FailedToUpdateStatusForNode nodename e), cl)
                | None \<Rightarrow> (None, record_event (NodeStatusUpdated nodename info) cl))))"

definition DeleteNode :: "k8s \<Rightarrow> string \<Rightarrow> cluster \<Rightarrow> error option \<times> cluster" where
  "DeleteNode api nodename cl =
     (case deleteNode api nodename of
        None \<Rightarrow> (None, record_event (NodeDeleted nodename) cl)
      | Some e \<Rightarrow>
          (case IgnoreNotFound (Some e) of
             None \<Rightarrow> (None, cl)
           | Some e' \<Rightarrow> (Some (FailedToDeleteNode e'), cl)))"

subsection \<open>Allocation\<close>

text \<open>The index of the first cloud of the ledger with the given identity.\<close>

fun findCloud :: "string \<Rightarrow> cmAllocatedCloud list \<Rightarrow> nat option" where
  "findCloud cloudID [] = None"
| "findCloud cloudID (iter # rest) =
     (if CloudID iter = cloudID then Some 0 else map_option Suc (findCloud cloudID rest))"

text \<open>
  \<^verbatim>\<open>remaining := nodegroup.Size - len(used)\<close>, a subtraction of Go \<^verbatim>\<open>int\<close>s, read as a
  signed number.
\<close>

definition remaining :: "NodeGroup \<Rightarrow> string list \<Rightarrow> int" where
  "remaining nodegroup used = sint (Size nodegroup - of_nat (length used))"

text \<open>
  \<^verbatim>\<open>cloud.Nodegroups[name] = append(cloud.Nodegroups[name], nodename)\<close>, where
  \<^verbatim>\<open>cloud\<close> points at the entry \<open>i\<close> of the ledger. The assignment panics when the
  map of the entry is \<^verbatim>\<open>nil\<close>: the result is \<open>None\<close>.
\<close>

definition appendNode ::
  "nat \<Rightarrow> string \<Rightarrow> string \<Rightarrow> cmAllocations \<Rightarrow> cmAllocations option" where
  "appendNode i groupname nodename allocations =
     (let cloud = Clouds allocations ! i
      in case Nodegroups cloud of
           None \<Rightarrow> None
         | Some groups \<Rightarrow>
             Some (allocations\<lparr>Clouds := (Clouds allocations)
               [i := cloud\<lparr>Nodegroups :=
                  Some (Mapping.update groupname
                    (groupNodes cloud groupname @ [nodename]) groups)\<rparr>]\<rparr>))"

text \<open>
  \<^verbatim>\<open>yaml.Marshal(&allocations)\<close>, \<^verbatim>\<open>cm.Data[allocationsKey] = ...\<close> and
  \<^verbatim>\<open>h.Client.Update(ctx, cm)\<close>: the ledger in memory replaces the allocations of the
  ConfigMap object \<open>cm\<close> read earlier, and the object is sent to the API server.
  Marshalling this structure of strings has no failing case.
\<close>

definition updateConfigmap ::
  "k8s \<Rightarrow> ConfigMap \<Rightarrow> cmAllocations \<Rightarrow> cluster \<Rightarrow> error option \<times> cluster" where
  "updateConfigmap api cm allocations cl =
     (case updateConfigMap api allocations of
        Some e \<Rightarrow> (Some (FailedToUpdateConfigmap e), cl)
      | None \<Rightarrow>
          (None,
           record_event (ConfigMapUpdated allocations)
             (cl\<lparr>nodelist := Inr (cm\<lparr>allocationsData := Inr allocations\<rparr>)\<rparr>)))"

text \<open>
  The body of the loop of \<^verbatim>\<open>AllocateNode\<close> from the chosen node on: the secret, the
  entry in the ledger, the write of the ConfigMap, the Node object and its status. The
  result carries the ledger in memory.
\<close>

definition allocateChosen ::
  "k8s \<Rightarrow> string \<Rightarrow> ConfigMap \<Rightarrow> nat \<Rightarrow> NodeGroup \<Rightarrow> string \<Rightarrow> cmNodeInfo \<Rightarrow>
   cmAllocations \<Rightarrow> cluster \<Rightarrow> error option \<times> cmAllocations \<times> cluster" where
  "allocateChosen api cloudID cm i nodegroup nodename nodeinfo allocations cl =
     (case BMC nodeinfo of
        None \<Rightarrow> (Some NilPointerDereference, allocations, cl)
      | Some bmc \<Rightarrow>
     (case CreateBMCSecret api nodename (UsernameBase64 bmc) (PasswordBase64 bmc) cl of
        (Some e, cl1) \<Rightarrow>
          (Some (FailedToCreateBmcSecretWhenAllocating nodename e), allocations, cl1)
      | (None, cl1) \<Rightarrow>
     (case appendNode i (Name nodegroup) nodename allocations of
        None \<Rightarrow> (Some AssignmentToEntryInNilMap, allocations, cl1)
      | Some allocations' \<Rightarrow>
     (case updateConfigmap api cm allocations' cl1 of
        (Some e, cl2) \<Rightarrow> (Some e, allocations', cl2)
      | (None, cl2) \<Rightarrow>
     (case CreateNode api cloudID nodename (Name nodegroup) (GroupHwProfile nodegroup) cl2 of
        (Some e, cl3) \<Rightarrow> (Some (FailedToCreateAllocatedNode nodename e), allocations', cl3)
      | (None, cl3) \<Rightarrow>
     (case UpdateNodeStatus api nodename nodeinfo cl3 of
        (Some e, cl4) \<Rightarrow> (Some (FailedToUpdateNodeStatus nodename e), allocations', cl4)
      | (None, cl4) \<Rightarrow> (None, allocations', cl4)))))))"

text \<open>
  One pass of the loop of \<^verbatim>\<open>AllocateNode\<close>, for one node group of the request. \<open>cm\<close> is
  the ConfigMap object read at the start, \<open>i\<close> the index of the cloud in the ledger in
  memory.
\<close>

definition allocateGroup ::
  "k8s \<Rightarrow> string \<Rightarrow> ConfigMap \<Rightarrow> cmResources \<Rightarrow> nat \<Rightarrow> NodeGroup \<Rightarrow>
   cmAllocations \<Rightarrow> cluster \<Rightarrow> error option \<times> cmAllocations \<times> cluster" where
  "allocateGroup api cloudID cm resources i nodegroup allocations cl =
     (let used = groupNodes (Clouds allocations ! i) (Name nodegroup)
      in if remaining nodegroup used \<le> 0 then (None, allocations, cl)
         else
          (let freenodes = getFreeNodesInProfile
                 (rangeNodes api allocations (GroupHwProfile nodegroup))
                 resources allocations (GroupHwProfile nodegroup)
           in if remaining nodegroup used > int (length freenodes)
              then (Some (NotEnoughFreeResourcesRemaining (GroupHwProfile nodegroup)),
                    allocations, cl)
              else
                (case freenodes of
                   [] \<Rightarrow> (Some IndexOutOfRange, allocations, cl)
                 | nodename # others \<Rightarrow>
                     (case Mapping.lookup (Nodes resources) nodename of
                        None \<Rightarrow> (Some (UnableToFindNodeinfo nodename), allocations, cl)
                      | Some nodeinfo \<Rightarrow>
                          allocateChosen api cloudID cm i nodegroup nodename nodeinfo
                            allocations cl))))"

fun allocateGroups ::
  "k8s \<Rightarrow> string \<Rightarrow> ConfigMap \<Rightarrow> cmResources \<Rightarrow> nat \<Rightarrow> NodeGroup list \<Rightarrow>
   cmAllocations \<Rightarrow> cluster \<Rightarrow> error option \<times> cluster" where
  "allocateGroups api cloudID cm resources i [] allocations cl = (None, cl)"
| "allocateGroups api cloudID cm resources i (nodegroup # rest) allocations cl =
     (case allocateGroup api cloudID cm resources i nodegroup allocations cl of
        (Some e, allocations', cl') \<Rightarrow> (Some e, cl')
      | (None, allocations', cl') \<Rightarrow>
          allocateGroups api cloudID cm resources i rest allocations' cl')"

text \<open>
  The entry of the cloud in the ledger in memory: the first one with the identity of the
  request, or a new one with no node groups, added at the end. The result is the index
  of the entry and the ledger.
\<close>

definition cloudEntry :: "string \<Rightarrow> cmAllocations \<Rightarrow> nat \<times> cmAllocations" where
  "cloudEntry cloudID allocations =
     (case findCloud cloudID (Clouds allocations) of
        Some i \<Rightarrow> (i, allocations)
      | None \<Rightarrow>
          (length (Clouds allocations),
           allocations\<lparr>Clouds := Clouds allocations @
             [\<lparr>CloudID = cloudID, Nodegroups = Some Mapping.empty\<rparr>]\<rparr>))"

definition AllocateNode :: "k8s \<Rightarrow> NodePool \<Rightarrow> cluster \<Rightarrow> error option \<times> cluster" where
  "AllocateNode api nodepool cl =
     (let cloudID = SpecCloudID nodepool
      in case GetCurrentResources cl of
           Inl e \<Rightarrow> (Some (UnableToGetCurrentResources e), cl)
         | Inr (cm, resources, allocations) \<Rightarrow>
             (case cloudEntry cloudID allocations of
                (i, allocations') \<Rightarrow>
                  allocateGroups api cloudID cm resources i (SpecNodeGroup nodepool)
                    allocations' cl))"

subsection \<open>Progress of a request\<close>

fun fullyAllocatedGroups ::
  "k8s \<Rightarrow> cmResources \<Rightarrow> cmAllocations \<Rightarrow> cmAllocatedCloud \<Rightarrow> NodeGroup list \<Rightarrow>
   bool \<times> error option" where
  "fullyAllocatedGroups api resources allocations cloud [] = (True, None)"
| "fullyAllocatedGroups api resources allocations cloud (nodegroup # rest) =
     (let used = groupNodes cloud (Name nodegroup)
      in if remaining nodegroup used \<le> 0
         then fullyAllocatedGroups api resources allocations cloud rest
         else
          (let freenodes = getFreeNodesInProfile
                 (rangeNodes api allocations (GroupHwProfile nodegroup))
                 resources allocations (GroupHwProfile nodegroup)
           in if remaining nodegroup used > int (length freenodes)
              then (False, Some (NotEnoughFreeResourcesRemaining (GroupHwProfile nodegroup)))
              else (False, None)))"

definition IsNodeFullyAllocated :: "k8s \<Rightarrow> NodePool \<Rightarrow> cluster \<Rightarrow> bool \<times> error option" where
  "IsNodeFullyAllocated api nodepool cl =
     (case GetCurrentResources cl of
        Inl e \<Rightarrow> (False, Some (UnableToGetCurrentResources e))
      | Inr (cm, resources, allocations) \<Rightarrow>
          (case findCloud (SpecCloudID nodepool) (Clouds allocations) of
             None \<Rightarrow> (False, None)
           | Some i \<Rightarrow>
               fullyAllocatedGroups api resources allocations (Clouds allocations ! i)
                 (SpecNodeGroup nodepool)))"

definition GetAllocatedNodes :: "NodePool \<Rightarrow> cluster \<Rightarrow> error + string list" where
  "GetAllocatedNodes nodepool cl =
     (case GetCurrentResources cl of
        Inl e \<Rightarrow> Inl (UnableToGetCurrentResources e)
      | Inr (cm, resources, allocations) \<Rightarrow>
          (case findCloud (SpecCloudID nodepool) (Clouds allocations) of
             None \<Rightarrow> Inr []
           | Some i \<Rightarrow>
               Inr (sort (concat (map
                 (\<lambda>nodegroup. groupNodes (Clouds allocations ! i) (Name nodegroup))
                 (SpecNodeGroup nodepool))))))"

text \<open>
  The loop of \<^verbatim>\<open>CheckNodePoolProgress\<close>: one call of \<^verbatim>\<open>AllocateNode\<close> for every node
  group of the request.
\<close>

fun allocateForEachGroup ::
  "k8s \<Rightarrow> NodePool \<Rightarrow> NodeGroup list \<Rightarrow> cluster \<Rightarrow> error option \<times> cluster" where
  "allocateForEachGroup api nodepool [] cl = (None, cl)"
| "allocateForEachGroup api nodepool (nodegroup # rest) cl =
     (case AllocateNode api nodepool cl of
        (Some e, cl') \<Rightarrow> (Some (FailedToAllocateNode e), cl')
      | (None, cl') \<Rightarrow> allocateForEachGroup api nodepool rest cl')"

definition CheckNodePoolProgress ::
  "k8s \<Rightarrow> NodePool \<Rightarrow> cluster \<Rightarrow> bool \<times> error option \<times> cluster" where
  "CheckNodePoolProgress api nodepool cl =
     (case IsNodeFullyAllocated api nodepool cl of
        (full, Some e) \<Rightarrow> (full, Some (FailedToCheckNodepoolAllocation e), cl)
      | (full, None) \<Rightarrow>
          if full then (full, None, cl)
          else (case allocateForEachGroup api nodepool (SpecNodeGroup nodepool) cl of
                  (err, cl') \<Rightarrow> (full, err, cl')))"

subsection \<open>Release\<close>

fun releaseNodes :: "k8s \<Rightarrow> string list \<Rightarrow> cluster \<Rightarrow> error option \<times> cluster" where
  "releaseNodes api [] cl = (None, cl)"
| "releaseNodes api (nodename # rest) cl =
     (case DeleteBMCSecret api nodename cl of
        (Some e, cl1) \<Rightarrow> (Some (FailedToDeleteBmcSecretFor nodename e), cl1)
      | (None, cl1) \<Rightarrow>
          (case DeleteNode api nodename cl1 of
             (Some e, cl2) \<Rightarrow> (Some (FailedToDeleteNodeNamed nodename e), cl2)
           | (None, cl2) \<Rightarrow> releaseNodes api rest cl2))"

fun releaseGroups ::
  "k8s \<Rightarrow> cmAllocatedCloud \<Rightarrow> string list \<Rightarrow> cluster \<Rightarrow> error option \<times> cluster" where
  "releaseGroups api cloud [] cl = (None, cl)"
| "releaseGroups api cloud (groupname # rest) cl =
     (case releaseNodes api (groupNodes cloud groupname) cl of
        (Some e, cl') \<Rightarrow> (Some e, cl')
      | (None, cl') \<Rightarrow> releaseGroups api cloud rest cl')"

text \<open>\<^verbatim>\<open>slices.Delete(s, index, index+1)\<close>.\<close>

definition deleteAt :: "nat \<Rightarrow> 'a list \<Rightarrow> 'a list" where
  "deleteAt index s = take index s @ drop (Suc index) s"

definition ReleaseNodePool :: "k8s \<Rightarrow> NodePool \<Rightarrow> cluster \<Rightarrow> error option \<times> cluster" where
  "ReleaseNodePool api nodepool cl =
     (case GetCurrentResources cl of
        Inl e \<Rightarrow> (Some (UnableToGetCurrentResources e), cl)
      | Inr (cm, resources, allocations) \<Rightarrow>
          (case findCloud (SpecCloudID nodepool) (Clouds allocations) of
             None \<Rightarrow> (None, cl)
           | Some index \<Rightarrow>
               (let cloud = Clouds allocations ! index
                in case releaseGroups api cloud (rangeNodegroups api cloud) cl of
                     (Some e, cl1) \<Rightarrow> (Some e, cl1)
                   | (None, cl1) \<Rightarrow>
                       updateConfigmap api cm
                         (allocations\<lparr>Clouds := deleteAt index (Clouds allocations)\<rparr>) cl1)))"

subsection \<open>The reconciler\<close>

text \<open>\<^verbatim>\<open>ctrl.Result\<close>; a \<^verbatim>\<open>time.Duration\<close> counts nanoseconds.\<close>

record Result =
  Requeue :: bool
  RequeueAfter :: int

definition Second :: int where "Second = 1000000000"
definition Minute :: int where "Minute = 60 * Second"

definition doNotRequeue :: Result where
  "doNotRequeue = \<lparr>Requeue = False, RequeueAfter = 0\<rparr>"

definition requeueWithError :: "error \<Rightarrow> Result \<times> error option" where
  "requeueWithError err = (\<lparr>Requeue = False, RequeueAfter = 0\<rparr>, Some err)"

definition requeueWithCustomInterval :: "int \<Rightarrow> Result" where
  "requeueWithCustomInterval interval = \<lparr>Requeue = False, RequeueAfter = interval\<rparr>"

definition requeueWithLongInterval :: Result where
  "requeueWithLongInterval = requeueWithCustomInterval (5 * Minute)"

definition requeueWithMediumInterval :: Result where
  "requeueWithMediumInterval = requeueWithCustomInterval (1 * Minute)"

definition requeueWithShortInterval :: Result where
  "requeueWithShortInterval = requeueWithCustomInterval (15 * Second)"

text \<open>
  \<^verbatim>\<open>meta.FindStatusCondition\<close> of the Kubernetes library: the first condition of the
  given type.
\<close>

definition FindStatusCondition :: "Condition list \<Rightarrow> string \<Rightarrow> Condition option" where
  "FindStatusCondition conditions conditionType =
     find (\<lambda>c. Type c = conditionType) conditions"

text \<open>
  Modelled from the spec: \<^verbatim>\<open>utils.SetStatusCondition\<close> is not part of the sources at
  hand. It sets the condition of the given type: the condition of that type takes the
  given reason, status and message, where it stands in the list, and is added at the end
  when the list has none.
\<close>

definition SetStatusCondition ::
  "Condition list \<Rightarrow> string \<Rightarrow> string \<Rightarrow> ConditionStatus \<Rightarrow> string \<Rightarrow> Condition list" where
  "SetStatusCondition conditions conditionType conditionReason conditionStatus message =
     (let condition = \<lparr>Type = conditionType, Status = conditionStatus,
                        Reason = conditionReason, Message = message\<rparr>
      in if list_ex (\<lambda>c. Type c = conditionType) conditions
         then map (\<lambda>c. if Type c = conditionType then condition else c) conditions
         else conditions @ [condition])"

text \<open>
  Modelled from the spec: \<^verbatim>\<open>utils.UpdateK8sCRStatus\<close> is not part of the sources at
  hand; it writes the status of the object, and the API server answers.
\<close>

definition UpdateK8sCRStatus :: "k8s \<Rightarrow> NodePool \<Rightarrow> cluster \<Rightarrow> api_error option \<times> cluster" where
  "UpdateK8sCRStatus api nodepool cl =
     (case updateNodePoolStatus api nodepool of
        Some e \<Rightarrow> (Some e, cl)
      | None \<Rightarrow> (None, record_event (NodePoolStatusUpdated nodepool) cl))"

datatype NodePoolFSMAction = NodePoolFSMCreate | NodePoolFSMProcessing | NodePoolFSMNoop

definition determineAction :: "NodePool \<Rightarrow> NodePoolFSMAction" where
  "determineAction nodepool =
     (if length (StatusConditions nodepool) = 0 then NodePoolFSMCreate
      else
        (case FindStatusCondition (StatusConditions nodepool) Provisioned of
           Some provisionedCondition \<Rightarrow>
             (if Status provisionedCondition = ConditionTrue then NodePoolFSMNoop
              else NodePoolFSMProcessing)
         | None \<Rightarrow> NodePoolFSMNoop))"

definition handleNodePoolCreate ::
  "k8s \<Rightarrow> NodePool \<Rightarrow> cluster \<Rightarrow> (Result \<times> error option) \<times> NodePool \<times> cluster" where
  "handleNodePoolCreate api nodepool cl =
     (let nodepool' =
            (case CreateNodePool api nodepool cl of
               Some err \<Rightarrow>
                 nodepool\<lparr>StatusConditions :=
                   SetStatusCondition (StatusConditions nodepool) Provisioned Failed
                     ConditionFalse (''Creation request failed: '' @ Error err)\<rparr>
             | None \<Rightarrow>
                 nodepool\<lparr>StatusConditions :=
                   SetStatusCondition (StatusConditions nodepool) Provisioned InProgress
                     ConditionFalse ''Handling creation''\<rparr>)
      in case UpdateK8sCRStatus api nodepool' cl of
           (Some updateErr, cl') \<Rightarrow>
             ((requeueWithMediumInterval,
               Some (FailedToUpdateStatusForNodePool (ObjectName nodepool') updateErr)),
              nodepool', cl')
         | (None, cl') \<Rightarrow> ((doNotRequeue, None), nodepool', cl'))"

definition handleNodePoolProcessing ::
  "k8s \<Rightarrow> NodePool \<Rightarrow> cluster \<Rightarrow> (Result \<times> error option) \<times> NodePool \<times> cluster" where
  "handleNodePoolProcessing api nodepool cl =
     (case CheckNodePoolProgress api nodepool cl of
        (full, Some err, cl1) \<Rightarrow>
          (requeueWithError (FailedCheckNodePoolProgress err), nodepool, cl1)
      | (full, None, cl1) \<Rightarrow>
          (case GetAllocatedNodes nodepool cl1 of
             Inl err \<Rightarrow>
               (requeueWithError (FailedToGetAllocatedNodes (ObjectName nodepool) err),
                nodepool, cl1)
           | Inr allocatedNodes \<Rightarrow>
               (let nodepool1 = nodepool\<lparr>StatusNodeNames := allocatedNodes\<rparr>;
                    nodepool2 =
                      (if full
                       then nodepool1\<lparr>StatusConditions :=
                              SetStatusCondition (StatusConditions nodepool1) Provisioned
                                Completed ConditionTrue ''Created''\<rparr>
                       else nodepool1);
                    result = (if full then doNotRequeue else requeueWithShortInterval)
                in case UpdateK8sCRStatus api nodepool2 cl1 of
                     (Some updateErr, cl2) \<Rightarrow>
                       (requeueWithError
                          (FailedToUpdateStatusForNodePool (ObjectName nodepool2) updateErr),
                        nodepool2, cl2)
                   | (None, cl2) \<Rightarrow> ((result, None), nodepool2, cl2))))"

definition handleNodePoolObject ::
  "k8s \<Rightarrow> NodePool \<Rightarrow> cluster \<Rightarrow> (Result \<times> error option) \<times> NodePool \<times> cluster" where
  "handleNodePoolObject api nodepool cl =
     (case determineAction nodepool of
        NodePoolFSMCreate \<Rightarrow> handleNodePoolCreate api nodepool cl
      | NodePoolFSMProcessing \<Rightarrow> handleNodePoolProcessing api nodepool cl
      | NodePoolFSMNoop \<Rightarrow> ((doNotRequeue, None), nodepool, cl))"

definition finalizer :: "k8s \<Rightarrow> NodePool \<Rightarrow> cluster \<Rightarrow> error option \<times> cluster" where
  "finalizer api nodepool cl =
     (case ReleaseNodePool api nodepool cl of
        (Some err, cl') \<Rightarrow> (Some (FailedToReleaseNodepool (ObjectName nodepool) err), cl')
      | (None, cl') \<Rightarrow> (None, cl'))"

subsection \<open>The persisted ledger and sequences of operations\<close>

text \<open>
  The allocations that the \<^verbatim>\<open>nodelist\<close> ConfigMap holds, as \<^verbatim>\<open>GetCurrentResources\<close>
  reads them: the empty ledger when the key is absent or does not parse.
\<close>

definition ledger :: "cluster \<Rightarrow> cmAllocations" where
  "ledger cl =
     (case nodelist cl of
        Inl e \<Rightarrow> \<lparr>Clouds = []\<rparr>
      | Inr cm \<Rightarrow>
          (case allocationsData cm of
             Inl m \<Rightarrow> \<lparr>Clouds = []\<rparr>
           | Inr allocations \<Rightarrow> allocations))"

text \<open>The ledgers that the API server has accepted as updates of the ConfigMap, oldest first.\<close>

definition ledgerWrites :: "cluster \<Rightarrow> cmAllocations list" where
  "ledgerWrites cl =
     concat (map (\<lambda>ev. case ev of ConfigMapUpdated allocations \<Rightarrow> [allocations] | _ \<Rightarrow> [])
       (journal cl))"

text \<open>
  No double allocation: a node name stands under at most one pair of a cloud identity
  and a group name.
\<close>

definition no_double_alloc :: "cmAllocations \<Rightarrow> bool" where
  "no_double_alloc allocations \<longleftrightarrow>
     (\<forall>c1 \<in> set (Clouds allocations). \<forall>c2 \<in> set (Clouds allocations). \<forall>g1 g2 nodename.
        nodename \<in> set (groupNodes c1 g1) \<and> nodename \<in> set (groupNodes c2 g2) \<longrightarrow>
        CloudID c1 = CloudID c2 \<and> g1 = g2)"

text \<open>
  A sequence of ledgers, each of which is the one before it (the first: \<open>allocations\<close>)
  with one node name more, a node of the inventory that the ledger before it does not
  hold.
\<close>

fun grownByFreeNodes :: "cmResources \<Rightarrow> cmAllocations \<Rightarrow> cmAllocations list \<Rightarrow> bool" where
  "grownByFreeNodes resources allocations [] = True"
| "grownByFreeNodes resources allocations (next # rest) =
     ((\<exists>i groupname nodename.
          nodename \<in> Mapping.keys (Nodes resources) \<and> nodename \<notin> inuse allocations \<and>
          appendNode i groupname nodename allocations = Some next) \<and>
      grownByFreeNodes resources next rest)"

text \<open>
  A sequence of calls of \<^verbatim>\<open>AllocateNode\<close> and \<^verbatim>\<open>ReleaseNodePool\<close>, each with the
  answers that the API server gives during the call, run one after the other on the
  cluster.
\<close>

datatype step = Allocate k8s NodePool | Release k8s NodePool

fun run :: "step list \<Rightarrow> cluster \<Rightarrow> cluster" where
  "run [] cl = cl"
| "run (Allocate api nodepool # rest) cl = run rest (snd (AllocateNode api nodepool cl))"
| "run (Release api nodepool # rest) cl = run rest (snd (ReleaseNodePool api nodepool cl))"

subsection \<open>A small inventory\<close>

text \<open>
  Two nodes of one hardware profile, an empty ledger, an API server that accepts every
  request, and a request of two node groups of that profile. The theorems below are
  evaluated on them.
\<close>

definition node_P :: cmNodeInfo where
  "node_P = \<lparr>HwProfile = ''P'',
     BMC = Some \<lparr>Address = ''redfish'', UsernameBase64 = ''YWRtaW4='',
                  PasswordBase64 = ''bXlwYXNz''\<rparr>,
     BootMACAddress = ''c6:b6:13:a0:02:00'', Hostname = ''h''\<rparr>"

definition catalog2 :: cmResources where
  "catalog2 = \<lparr>HwProfiles = [''P''],
     Nodes = Mapping.update ''n0'' node_P (Mapping.update ''n1'' node_P Mapping.empty)\<rparr>"

definition cm0 :: ConfigMap where
  "cm0 = \<lparr>resourcesData = Inr catalog2, allocationsData = Inl ''no allocations''\<rparr>"

definition cluster0 :: cluster where
  "cluster0 = \<lparr>nodelist = Inr cm0, journal = []\<rparr>"

definition api_ok :: k8s where
  "api_ok = \<lparr>rangeNodes = (\<lambda>a p. [''n0'', ''n1'']),
     rangeNodegroups = (\<lambda>c. [''master'', ''worker'']),
     decodeBase64 = (\<lambda>s. Inr s),
     applySecret = (\<lambda>n. None), updateConfigMap = (\<lambda>a. None), createNode = (\<lambda>n. None),
     getNode = (\<lambda>n. None), updateNodeStatus = (\<lambda>n. None), deleteSecret = (\<lambda>n. None),
     deleteNode = (\<lambda>n. None), updateNodePoolStatus = (\<lambda>n. None)\<rparr>"

definition pool2 :: NodePool where
  "pool2 = \<lparr>ObjectName = ''np1'', SpecCloudID = ''cloud'',
     SpecNodeGroup = [\<lparr>Name = ''master'', GroupHwProfile = ''P'', Size = 2\<rparr>,
                      \<lparr>Name = ''worker'', GroupHwProfile = ''P'', Size = 2\<rparr>],
     StatusConditions = [], StatusNodeNames = []\<rparr>"

text \<open>The same request with a condition of another type in its status.\<close>

definition pool_ready :: NodePool where
  "pool_ready = pool2\<lparr>StatusConditions :=
     [\<lparr>Type = ''Ready'', Status = ConditionTrue, Reason = ''Ready'', Message = []\<rparr>]\<rparr>"

text \<open>A ledger in which the cloud of the request holds one node in each group.\<close>

definition ledger1 :: cmAllocations where
  "ledger1 = \<lparr>Clouds = [\<lparr>CloudID = ''cloud'',
     Nodegroups = Some (Mapping.update ''master'' [''n1'']
                    (Mapping.update ''worker'' [''n0''] Mapping.empty))\<rparr>]\<rparr>"

definition cluster1 :: cluster where
  "cluster1 = \<lparr>nodelist = Inr (cm0\<lparr>allocationsData := Inr ledger1\<rparr>), journal = []\<rparr>"

text \<open>The same API server walking the nodes in the other order.\<close>

definition api_rev :: k8s where
  "api_rev = api_ok\<lparr>rangeNodes := (\<lambda>a p. [''n1'', ''n0''])\<rparr>"

text \<open>An API server that answers every update of the ConfigMap with a conflict.\<close>

definition conflict :: api_error where
  "conflict = StatusError Conflict ''the object has been modified''"

definition api_conflict :: k8s where
  "api_conflict = api_ok\<lparr>updateConfigMap := (\<lambda>a. Some conflict)\<rparr>"

text \<open>Requests of one node group, of size 1 and of size 3, and of two groups of size 1.\<close>

definition pool1 :: NodePool where
  "pool1 = pool2\<lparr>SpecNodeGroup := [\<lparr>Name = ''master'', GroupHwProfile = ''P'', Size = 1\<rparr>]\<rparr>"


definition pool11 :: NodePool where
  "pool11 = pool2\<lparr>SpecNodeGroup :=
     [\<lparr>Name = ''master'', GroupHwProfile = ''P'', Size = 1\<rparr>,
      \<lparr>Name = ''worker'', GroupHwProfile = ''P'', Size = 1\<rparr>]\<rparr>"

text \<open>
  A request of one group of profile \<open>P\<close> and one of profile \<open>Q\<close>, of which the inventory
  has no node; and the request as the reconciler leaves it when its admission has failed.
\<close>

definition pool_pq :: NodePool where
  "pool_pq = pool2\<lparr>SpecNodeGroup :=
     [\<lparr>Name = ''master'', GroupHwProfile = ''P'', Size = 1\<rparr>,
      \<lparr>Name = ''worker'', GroupHwProfile = ''Q'', Size = 1\<rparr>]\<rparr>"

definition pool_pq_failed :: NodePool where
  "pool_pq_failed = pool_pq\<lparr>StatusConditions :=
     [\<lparr>Type = ''Provisioned'', Status = ConditionFalse, Reason = ''Failed'',
       Message = ''Creation request failed: not enough free resources in group Q: freenodes=0''\<rparr>]\<rparr>"

text \<open>The cluster after the status of that request has been written.\<close>

definition cluster_failed :: cluster where
  "cluster_failed = record_event (NodePoolStatusUpdated pool_pq_failed) cluster0"

text \<open>
  The ledgers that \<^verbatim>\<open>AllocateNode\<close> writes for the request of two groups of size 1 on
  the empty ledger.
\<close>

definition ledger_n0 :: cmAllocations where
  "ledger_n0 = \<lparr>Clouds = [\<lparr>CloudID = ''cloud'',
     Nodegroups = Some (Mapping.update ''master'' [''n0''] Mapping.empty)\<rparr>]\<rparr>"

definition ledger_n0_n1 :: cmAllocations where
  "ledger_n0_n1 = \<lparr>Clouds = [\<lparr>CloudID = ''cloud'',
     Nodegroups = Some (Mapping.update ''worker'' [''n1'']
                    (Mapping.update ''master'' [''n0''] Mapping.empty))\<rparr>]\<rparr>"

definition cluster_n0_n1 :: cluster where
  "cluster_n0_n1 =
     \<lparr>nodelist = Inr (cm0\<lparr>allocationsData := Inr ledger_n0_n1\<rparr>),
      journal = [SecretApplied ''n0-bmc-secret'' ''YWRtaW4='' ''bXlwYXNz'',
        ConfigMapUpdated ledger_n0,
        NodeCreated ''n0'' ''cloud'' ''master'' ''P'',
        NodeStatusUpdated ''n0'' node_P,
        SecretApplied ''n1-bmc-secret'' ''YWRtaW4='' ''bXlwYXNz'',
        ConfigMapUpdated ledger_n0_n1,
        NodeCreated ''n1'' ''cloud'' ''worker'' ''P'',
        NodeStatusUpdated ''n1'' node_P]\<rparr>"

definition ledger_n1 :: cmAllocations where
  "ledger_n1 = \<lparr>Clouds = [\<lparr>CloudID = ''cloud'',
     Nodegroups = Some (Mapping.update ''master'' [''n1''] Mapping.empty)\<rparr>]\<rparr>"

section \<open>Properties\<close>

subsection \<open>Auxiliary facts\<close>

lemma inuse_Nil: "inuse \<lparr>Clouds = []\<rparr> = {}"
  by (simp add: inuse_def)

lemma findCloud_None: "findCloud c cs = None \<longleftrightarrow> c \<notin> CloudID ` set cs"
  by (induction cs) auto

lemma findCloud_Some:
  "findCloud c cs = Some i \<longleftrightarrow>
     i < length cs \<and> CloudID (cs ! i) = c \<and> (\<forall>j<i. CloudID (cs ! j) \<noteq> c)"
proof (induction cs arbitrary: i)
  case Nil
  then show ?case by simp
next
  case (Cons a cs)
  show ?case
  proof (cases "CloudID a = c")
    case True
    then show ?thesis by (cases i) auto
  next
    case False
    show ?thesis
    proof (cases i)
      case 0
      with False show ?thesis by auto
    next
      case (Suc k)
      have "(\<forall>j<Suc k. CloudID ((a # cs) ! j) \<noteq> c) \<longleftrightarrow> (\<forall>j<k. CloudID (cs ! j) \<noteq> c)"
        using False by (auto simp add: less_Suc_eq_0_disj)
      with False Suc Cons.IH [of k] show ?thesis by auto
    qed
  qed
qed

lemma GetCurrentResources_cluster0:
  "GetCurrentResources cluster0 = Inr (cm0, catalog2, \<lparr>Clouds = []\<rparr>)"
  by (simp add: GetCurrentResources_def cluster0_def cm0_def)

lemma GetCurrentResources_cluster1:
  "GetCurrentResources cluster1 = Inr (cm0\<lparr>allocationsData := Inr ledger1\<rparr>, catalog2, ledger1)"
  by (simp add: GetCurrentResources_def cluster1_def cm0_def)

lemma CreateNodePool_pool2: "CreateNodePool api_ok pool2 cluster0 = None"
  by (simp add: CreateNodePool_def GetCurrentResources_cluster0 pool2_def api_ok_def
      getFreeNodesInProfile_def inuse_Nil catalog2_def node_P_def lookup_update')

lemma ProcessNewNodePool_pool2: "ProcessNewNodePool api_ok pool2 cluster0 = None"
  by (simp add: ProcessNewNodePool_def GetCurrentResources_cluster0 pool2_def api_ok_def
      getFreeNodesInProfile_def inuse_Nil catalog2_def node_P_def lookup_update')

lemma SetStatusCondition_Nil:
  "SetStatusCondition [] t r s m = [\<lparr>Type = t, Status = s, Reason = r, Message = m\<rparr>]"
  by (simp add: SetStatusCondition_def)

lemma GetAllocatedNodes_cluster1: "GetAllocatedNodes pool2 cluster1 = Inr [''n0'', ''n1'']"
  by (simp add: GetAllocatedNodes_def GetCurrentResources_cluster1 ledger1_def pool2_def
      groupNodes_def lookup_default_update' lookup_default_empty less_eq_char_def)

subsection \<open>What one call changes\<close>

lemma nodelist_record_event: "nodelist (record_event ev cl) = nodelist cl"
  by (simp add: record_event_def)

lemma ledgerWrites_record_event:
  "ledgerWrites (record_event ev cl) =
     ledgerWrites cl @ (case ev of ConfigMapUpdated a \<Rightarrow> [a] | _ \<Rightarrow> [])"
  by (simp add: record_event_def ledgerWrites_def)

lemma CreateBMCSecret_frame:
  "CreateBMCSecret api n u p cl = (e, cl') \<Longrightarrow>
     nodelist cl' = nodelist cl \<and> ledgerWrites cl' = ledgerWrites cl \<and> (e \<noteq> None \<longrightarrow> cl' = cl)"
  by (auto simp add: CreateBMCSecret_def ledgerWrites_record_event nodelist_record_event
      split: sum.splits option.splits)

lemma CreateNode_frame:
  "CreateNode api c n g p cl = (e, cl') \<Longrightarrow>
     nodelist cl' = nodelist cl \<and> ledgerWrites cl' = ledgerWrites cl \<and> (e \<noteq> None \<longrightarrow> cl' = cl)"
  by (auto simp add: CreateNode_def ledgerWrites_record_event nodelist_record_event
      split: sum.splits option.splits)

lemma UpdateNodeStatus_frame:
  "UpdateNodeStatus api n info cl = (e, cl') \<Longrightarrow>
     nodelist cl' = nodelist cl \<and> ledgerWrites cl' = ledgerWrites cl \<and> (e \<noteq> None \<longrightarrow> cl' = cl)"
  by (auto simp add: UpdateNodeStatus_def ledgerWrites_record_event nodelist_record_event
      split: sum.splits option.splits)

lemma DeleteBMCSecret_frame:
  "DeleteBMCSecret api n cl = (e, cl') \<Longrightarrow>
     nodelist cl' = nodelist cl \<and> ledgerWrites cl' = ledgerWrites cl \<and> (e \<noteq> None \<longrightarrow> cl' = cl)"
  by (auto simp add: DeleteBMCSecret_def ledgerWrites_record_event nodelist_record_event
      split: sum.splits option.splits)

lemma DeleteNode_frame:
  "DeleteNode api n cl = (e, cl') \<Longrightarrow>
     nodelist cl' = nodelist cl \<and> ledgerWrites cl' = ledgerWrites cl \<and> (e \<noteq> None \<longrightarrow> cl' = cl)"
  by (auto simp add: DeleteNode_def ledgerWrites_record_event nodelist_record_event
      split: sum.splits option.splits)

lemma ledgerWrites_nodelist_update: "ledgerWrites (cl\<lparr>nodelist := x\<rparr>) = ledgerWrites cl"
  by (simp add: ledgerWrites_def)

lemma updateConfigmap_result:
  "updateConfigmap api cm a cl = (e, cl') \<Longrightarrow>
     (\<exists>x. updateConfigMap api a = Some x \<and> e = Some (FailedToUpdateConfigmap x) \<and> cl' = cl) \<or>
     (updateConfigMap api a = None \<and> e = None \<and>
      nodelist cl' = Inr (cm\<lparr>allocationsData := Inr a\<rparr>) \<and>
      ledgerWrites cl' = ledgerWrites cl @ [a])"
  by (auto simp add: updateConfigmap_def ledgerWrites_record_event nodelist_record_event
      ledgerWrites_nodelist_update split: option.splits)

lemma allocateChosen_result:
  assumes "allocateChosen api cloudID cm i g n info a cl = (err, a', cl')"
  shows "(err \<noteq> None \<and> a' = a \<and> nodelist cl' = nodelist cl \<and> ledgerWrites cl' = ledgerWrites cl) \<or>
     (appendNode i (Name g) n a = Some a' \<and>
        ((\<exists>x. updateConfigMap api a' = Some x \<and> err = Some (FailedToUpdateConfigmap x) \<and>
              nodelist cl' = nodelist cl \<and> ledgerWrites cl' = ledgerWrites cl) \<or>
         (updateConfigMap api a' = None \<and>
          nodelist cl' = Inr (cm\<lparr>allocationsData := Inr a'\<rparr>) \<and>
          ledgerWrites cl' = ledgerWrites cl @ [a'])))"
proof (cases "BMC info")
  case None
  with assms show ?thesis by (auto simp add: allocateChosen_def)
next
  case (Some bmc)
  obtain e1 cl1 where s1: "CreateBMCSecret api n (UsernameBase64 bmc) (PasswordBase64 bmc) cl = (e1, cl1)"
    by (cases "CreateBMCSecret api n (UsernameBase64 bmc) (PasswordBase64 bmc) cl")
  note f1 = CreateBMCSecret_frame [OF s1]
  show ?thesis
  proof (cases e1)
    case (Some e)
    with assms \<open>BMC info = Some bmc\<close> s1 f1 show ?thesis by (auto simp add: allocateChosen_def)
  next
    case None
    show ?thesis
    proof (cases "appendNode i (Name g) n a")
      case nilmap: None
      with assms \<open>BMC info = Some bmc\<close> s1 f1 \<open>e1 = None\<close> show ?thesis
        by (auto simp add: allocateChosen_def)
    next
      case (Some b)
      obtain e2 cl2 where s2: "updateConfigmap api cm b cl1 = (e2, cl2)"
        by (cases "updateConfigmap api cm b cl1")
      note f2 = updateConfigmap_result [OF s2]
      show ?thesis
      proof (cases e2)
        case failed: (Some e)
        with assms \<open>BMC info = Some bmc\<close> s1 f1 \<open>e1 = None\<close> Some s2 f2 show ?thesis
          by (auto simp add: allocateChosen_def)
      next
        case None
        obtain e3 cl3 where s3: "CreateNode api cloudID n (Name g) (GroupHwProfile g) cl2 = (e3, cl3)"
          by (cases "CreateNode api cloudID n (Name g) (GroupHwProfile g) cl2")
        note f3 = CreateNode_frame [OF s3]
        obtain e4 cl4 where s4: "UpdateNodeStatus api n info cl3 = (e4, cl4)"
          by (cases "UpdateNodeStatus api n info cl3")
        note f4 = UpdateNodeStatus_frame [OF s4]
        from assms \<open>BMC info = Some bmc\<close> s1 f1 \<open>e1 = None\<close> Some s2 f2 \<open>e2 = None\<close> s3 f3 s4 f4
        show ?thesis
          by (cases e3; cases e4) (auto simp add: allocateChosen_def)
      qed
    qed
  qed
qed

lemma free_mem:
  "n \<in> set (getFreeNodesInProfile iter resources a p) \<longleftrightarrow>
     n \<in> set iter \<and> n \<notin> inuse a \<and>
     (\<exists>node. Mapping.lookup (Nodes resources) n = Some node \<and> HwProfile node = p)"
  by (auto simp add: getFreeNodesInProfile_def split: option.splits)

lemma lookup_Some_keys: "Mapping.lookup m k = Some v \<Longrightarrow> k \<in> Mapping.keys m"
  by (simp add: keys_is_none_rep Option.is_none_def)

lemma allocateGroup_result:
  assumes "allocateGroup api cloudID cm resources i g a cl = (err, a', cl')"
  shows "(remaining g (groupNodes (Clouds a ! i) (Name g)) \<le> 0 \<and> err = None \<and> a' = a \<and> cl' = cl) \<or>
     (0 < remaining g (groupNodes (Clouds a ! i) (Name g)) \<and> err \<noteq> None \<and> a' = a \<and>
        nodelist cl' = nodelist cl \<and> ledgerWrites cl' = ledgerWrites cl) \<or>
     (0 < remaining g (groupNodes (Clouds a ! i) (Name g)) \<and>
      (\<exists>n others.
         getFreeNodesInProfile (rangeNodes api a (GroupHwProfile g)) resources a (GroupHwProfile g)
           = n # others \<and>
         remaining g (groupNodes (Clouds a ! i) (Name g)) \<le> 1 + int (length others) \<and>
         appendNode i (Name g) n a = Some a') \<and>
      ((\<exists>x. updateConfigMap api a' = Some x \<and> err = Some (FailedToUpdateConfigmap x) \<and>
            nodelist cl' = nodelist cl \<and> ledgerWrites cl' = ledgerWrites cl) \<or>
       (updateConfigMap api a' = None \<and>
        nodelist cl' = Inr (cm\<lparr>allocationsData := Inr a'\<rparr>) \<and>
        ledgerWrites cl' = ledgerWrites cl @ [a'])))"
proof (cases "remaining g (groupNodes (Clouds a ! i) (Name g)) \<le> 0")
  case True
  with assms show ?thesis by (auto simp add: allocateGroup_def)
next
  case False
  show ?thesis
  proof (cases "getFreeNodesInProfile (rangeNodes api a (GroupHwProfile g)) resources a (GroupHwProfile g)")
    case Nil
    with assms False show ?thesis by (auto simp add: allocateGroup_def Let_def)
  next
    case (Cons n others)
    show ?thesis
    proof (cases "remaining g (groupNodes (Clouds a ! i) (Name g)) > int (length (n # others))")
      case True
      with assms False Cons show ?thesis by (auto simp add: allocateGroup_def Let_def)
    next
      case enough: False
      show ?thesis
      proof (cases "Mapping.lookup (Nodes resources) n")
        case None
        with assms False Cons enough show ?thesis by (auto simp add: allocateGroup_def Let_def)
      next
        case (Some info)
        with assms False Cons enough
        have "allocateChosen api cloudID cm i g n info a cl = (err, a', cl')"
          by (auto simp add: allocateGroup_def Let_def)
        from allocateChosen_result [OF this] False Cons enough show ?thesis
          by auto
      qed
    qed
  qed
qed

lemma allocateGroups_writes:
  "allocateGroups api cloudID cm resources i groups a cl = (err, cl') \<Longrightarrow>
   \<exists>ws. ledgerWrites cl' = ledgerWrites cl @ ws \<and> length ws \<le> length groups \<and>
        grownByFreeNodes resources a ws \<and>
        nodelist cl' = (if ws = [] then nodelist cl
                        else Inr (cm\<lparr>allocationsData := Inr (last ws)\<rparr>))"
proof (induction groups arbitrary: a cl)
  case Nil
  then show ?case by simp
next
  case (Cons g rest)
  obtain e1 a1 cl1 where step: "allocateGroup api cloudID cm resources i g a cl = (e1, a1, cl1)"
    by (cases "allocateGroup api cloudID cm resources i g a cl")
  let ?free = "getFreeNodesInProfile (rangeNodes api a (GroupHwProfile g)) resources a (GroupHwProfile g)"
  show ?case
  proof (cases e1)
    case (Some e)
    with step Cons.prems have res: "err = Some e" "cl' = cl1" by simp_all
    from allocateGroup_result [OF step] Some
    consider "nodelist cl1 = nodelist cl \<and> ledgerWrites cl1 = ledgerWrites cl"
      | n others where "?free = n # others" "appendNode i (Name g) n a = Some a1"
          "nodelist cl1 = Inr (cm\<lparr>allocationsData := Inr a1\<rparr>)"
          "ledgerWrites cl1 = ledgerWrites cl @ [a1]"
      by auto
    then show ?thesis
    proof cases
      case 1
      with res show ?thesis by (intro exI [of _ "[]"]) simp
    next
      case 2
      from 2(1) have "n \<in> set ?free" by simp
      then have "n \<in> Mapping.keys (Nodes resources)" "n \<notin> inuse a"
        by (auto simp add: free_mem lookup_Some_keys)
      with 2 res show ?thesis by (intro exI [of _ "[a1]"]) auto
    qed
  next
    case None
    with step Cons.prems have rest: "allocateGroups api cloudID cm resources i rest a1 cl1 = (err, cl')"
      by simp
    from Cons.IH [OF rest] obtain ws where ws:
      "ledgerWrites cl' = ledgerWrites cl1 @ ws" "length ws \<le> length rest"
      "grownByFreeNodes resources a1 ws"
      "nodelist cl' = (if ws = [] then nodelist cl1
                       else Inr (cm\<lparr>allocationsData := Inr (last ws)\<rparr>))"
      by blast
    from allocateGroup_result [OF step] None
    consider "a1 = a" "cl1 = cl"
      | n others where "?free = n # others" "appendNode i (Name g) n a = Some a1"
          "nodelist cl1 = Inr (cm\<lparr>allocationsData := Inr a1\<rparr>)"
          "ledgerWrites cl1 = ledgerWrites cl @ [a1]"
      by auto
    then show ?thesis
    proof cases
      case 1
      with ws show ?thesis by (intro exI [of _ ws]) simp
    next
      case 2
      from 2(1) have "n \<in> set ?free" by simp
      then have "n \<in> Mapping.keys (Nodes resources)" "n \<notin> inuse a"
        by (auto simp add: free_mem lookup_Some_keys)
      with 2 ws show ?thesis by (intro exI [of _ "a1 # ws"]) auto
    qed
  qed
qed

subsection \<open>One more node in the ledger\<close>

lemma groupNodes_mem_keys: "n \<in> set (groupNodes c g) \<Longrightarrow> g \<in> groupKeys c"
proof (cases "Nodegroups c")
  case None
  assume "n \<in> set (groupNodes c g)"
  with None show ?thesis by (simp add: groupNodes_def)
next
  case (Some m)
  assume "n \<in> set (groupNodes c g)"
  with Some show ?thesis
    by (cases "Mapping.lookup m g")
      (auto simp add: groupNodes_def groupKeys_def lookup_default_def keys_is_none_rep
        Option.is_none_def)
qed

lemma inuse_alt: "inuse a = {n. \<exists>c \<in> set (Clouds a). \<exists>g. n \<in> set (groupNodes c g)}"
  by (auto simp add: inuse_def dest: groupNodes_mem_keys)

lemma appendNode_out_of_range:
  "appendNode i g n a = Some a' \<Longrightarrow> \<not> i < length (Clouds a) \<Longrightarrow> a' = a"
  by (auto simp add: appendNode_def Let_def list_update_beyond split: option.splits)

lemma appendNode_Clouds:
  assumes "appendNode i g n a = Some a'"
  obtains m where "Nodegroups (Clouds a ! i) = Some m"
    and "Clouds a' = (Clouds a)[i := (Clouds a ! i)\<lparr>Nodegroups :=
           Some (Mapping.update g (groupNodes (Clouds a ! i) g @ [n]) m)\<rparr>]"
  using assms by (auto simp add: appendNode_def Let_def split: option.splits)

lemma groupNodes_update:
  "Nodegroups c = Some m \<Longrightarrow>
   groupNodes (c\<lparr>Nodegroups := Some (Mapping.update g xs m)\<rparr>) h =
     (if h = g then xs else groupNodes c h)"
  by (simp add: groupNodes_def lookup_default_update')

lemma appendNode_holder:
  assumes app: "appendNode i g n a = Some a'"
    and c: "c \<in> set (Clouds a')" and m: "m \<in> set (groupNodes c h)"
  shows "(m = n \<and> h = g \<and> i < length (Clouds a) \<and> CloudID c = CloudID (Clouds a ! i)) \<or>
         (\<exists>c0 \<in> set (Clouds a). CloudID c0 = CloudID c \<and> m \<in> set (groupNodes c0 h))"
proof (cases "i < length (Clouds a)")
  case False
  with app have "a' = a" by (rule appendNode_out_of_range)
  with c m show ?thesis by auto
next
  case True
  from app obtain groups where groups: "Nodegroups (Clouds a ! i) = Some groups"
    and clouds: "Clouds a' = (Clouds a)[i := (Clouds a ! i)\<lparr>Nodegroups :=
           Some (Mapping.update g (groupNodes (Clouds a ! i) g @ [n]) groups)\<rparr>]"
    by (rule appendNode_Clouds)
  let ?c' = "(Clouds a ! i)\<lparr>Nodegroups :=
     Some (Mapping.update g (groupNodes (Clouds a ! i) g @ [n]) groups)\<rparr>"
  from c clouds have "c \<in> insert ?c' (set (Clouds a))"
    using set_update_subset_insert [of "Clouds a" i ?c'] by auto
  then show ?thesis
  proof
    assume eq: "c = ?c'"
    have old: "Clouds a ! i \<in> set (Clouds a)" using True by simp
    from m eq groups
    have "m \<in> set (if h = g then groupNodes (Clouds a ! i) g @ [n]
                   else groupNodes (Clouds a ! i) h)"
      by (simp only: groupNodes_update)
    then have "(h = g \<and> m = n) \<or> m \<in> set (groupNodes (Clouds a ! i) h)"
      by (auto split: if_splits)
    with eq old True show ?thesis by auto
  next
    assume "c \<in> set (Clouds a)"
    with m show ?thesis by auto
  qed
qed

lemma no_double_allocD:
  "no_double_alloc a \<Longrightarrow> d1 \<in> set (Clouds a) \<Longrightarrow> d2 \<in> set (Clouds a) \<Longrightarrow>
   m \<in> set (groupNodes d1 g1) \<Longrightarrow> m \<in> set (groupNodes d2 g2) \<Longrightarrow>
   CloudID d1 = CloudID d2 \<and> g1 = g2"
  unfolding no_double_alloc_def by blast

lemma no_double_alloc_appendNode:
  assumes "no_double_alloc a" and "n \<notin> inuse a" and app: "appendNode i g n a = Some a'"
  shows "no_double_alloc a'"
  unfolding no_double_alloc_def
proof (intro ballI allI impI)
  fix c1 c2 g1 g2 m
  assume c1: "c1 \<in> set (Clouds a')"
    and c2: "c2 \<in> set (Clouds a')"
    and m: "m \<in> set (groupNodes c1 g1) \<and> m \<in> set (groupNodes c2 g2)"
  note h1 = appendNode_holder [OF app c1 conjunct1 [OF m]]
  note h2 = appendNode_holder [OF app c2 conjunct2 [OF m]]
  show "CloudID c1 = CloudID c2 \<and> g1 = g2"
  proof (cases "m = n")
    case True
    with assms(2) have "\<not> (\<exists>c0 \<in> set (Clouds a). \<exists>h. m \<in> set (groupNodes c0 h))"
      by (simp add: inuse_alt)
    with h1 h2 show ?thesis by auto
  next
    case False
    with h1 obtain d1 where d1: "d1 \<in> set (Clouds a)" "CloudID d1 = CloudID c1"
      "m \<in> set (groupNodes d1 g1)" by auto
    from False h2 obtain d2 where d2: "d2 \<in> set (Clouds a)" "CloudID d2 = CloudID c2"
      "m \<in> set (groupNodes d2 g2)" by auto
    from no_double_allocD [OF assms(1) d1(1) d2(1) d1(3) d2(3)] d1(2) d2(2)
    show ?thesis by simp
  qed
qed

lemma grownByFreeNodes_no_double_alloc:
  "grownByFreeNodes resources a ws \<Longrightarrow> no_double_alloc a \<Longrightarrow> w \<in> set ws \<Longrightarrow>
   no_double_alloc w"
proof (induction ws arbitrary: a)
  case Nil
  then show ?case by simp
next
  case (Cons b bs)
  from Cons.prems(1) obtain i g n where b: "n \<notin> inuse a" "appendNode i g n a = Some b"
    and rest: "grownByFreeNodes resources b bs" by auto
  from Cons.prems(2) b have nb: "no_double_alloc b" by (rule no_double_alloc_appendNode)
  from Cons.prems(3) have "w = b \<or> w \<in> set bs" by simp
  then show ?case
  proof
    assume "w = b" with nb show ?thesis by simp
  next
    assume "w \<in> set bs" with Cons.IH [OF rest nb] show ?thesis by simp
  qed
qed

lemma groupNodes_new_cloud: "groupNodes \<lparr>CloudID = c, Nodegroups = Some Mapping.empty\<rparr> g = []"
  by (simp add: groupNodes_def lookup_default_empty)

lemma Clouds_cloudEntry:
  "Clouds (snd (cloudEntry c a)) = Clouds a \<or>
   Clouds (snd (cloudEntry c a)) = Clouds a @ [\<lparr>CloudID = c, Nodegroups = Some Mapping.empty\<rparr>]"
  by (simp add: cloudEntry_def split: option.splits)

lemma inuse_new_cloud:
  "inuse (a\<lparr>Clouds := Clouds a @ [\<lparr>CloudID = c, Nodegroups = Some Mapping.empty\<rparr>]\<rparr>) = inuse a"
  by (simp add: inuse_def groupKeys_def)

lemma inuse_cloudEntry: "inuse (snd (cloudEntry c a)) = inuse a"
  by (simp add: cloudEntry_def inuse_new_cloud split: option.splits)

lemma no_double_alloc_empty: "no_double_alloc \<lparr>Clouds = []\<rparr>"
  by (simp add: no_double_alloc_def)

lemma no_double_alloc_subset:
  assumes "no_double_alloc a" and "set (Clouds b) \<subseteq> set (Clouds a)"
  shows "no_double_alloc b"
  unfolding no_double_alloc_def
proof (intro ballI allI impI)
  fix c1 c2 g1 g2 m
  assume "c1 \<in> set (Clouds b)" "c2 \<in> set (Clouds b)"
    and m: "m \<in> set (groupNodes c1 g1) \<and> m \<in> set (groupNodes c2 g2)"
  with assms(2) have "c1 \<in> set (Clouds a)" "c2 \<in> set (Clouds a)" by auto
  from no_double_allocD [OF assms(1) this conjunct1 [OF m] conjunct2 [OF m]]
  show "CloudID c1 = CloudID c2 \<and> g1 = g2" .
qed

lemma no_double_alloc_new_cloud:
  assumes "no_double_alloc a"
  shows "no_double_alloc (a\<lparr>Clouds := Clouds a @ [\<lparr>CloudID = c, Nodegroups = Some Mapping.empty\<rparr>]\<rparr>)"
  unfolding no_double_alloc_def
proof (intro ballI allI impI)
  fix c1 c2 g1 g2 m
  let ?new = "\<lparr>CloudID = c, Nodegroups = Some Mapping.empty\<rparr>"
  assume c1: "c1 \<in> set (Clouds (a\<lparr>Clouds := Clouds a @ [?new]\<rparr>))"
    and c2: "c2 \<in> set (Clouds (a\<lparr>Clouds := Clouds a @ [?new]\<rparr>))"
    and m: "m \<in> set (groupNodes c1 g1) \<and> m \<in> set (groupNodes c2 g2)"
  from m have "c1 \<noteq> ?new" "c2 \<noteq> ?new" by (auto simp add: groupNodes_new_cloud)
  with c1 c2 have "c1 \<in> set (Clouds a)" "c2 \<in> set (Clouds a)" by simp_all
  from no_double_allocD [OF assms this conjunct1 [OF m] conjunct2 [OF m]]
  show "CloudID c1 = CloudID c2 \<and> g1 = g2" .
qed

lemma no_double_alloc_cloudEntry:
  "no_double_alloc a \<Longrightarrow> no_double_alloc (snd (cloudEntry c a))"
  by (simp add: cloudEntry_def no_double_alloc_new_cloud split: option.splits)

subsection \<open>What a call of the service leaves in the ConfigMap\<close>

lemma GetCurrentResources_Inr:
  "GetCurrentResources cl = Inr (cm, resources, allocations) \<Longrightarrow>
     ledger cl = allocations \<and> nodelist cl = Inr cm \<and> resourcesData cm = Inr resources"
  by (auto simp add: GetCurrentResources_def ledger_def split: sum.splits)

lemma ledger_written: "nodelist cl = Inr (cm\<lparr>allocationsData := Inr a\<rparr>) \<Longrightarrow> ledger cl = a"
  by (simp add: ledger_def)

lemma ledger_same: "nodelist cl' = nodelist cl \<Longrightarrow> ledger cl' = ledger cl"
  by (simp add: ledger_def)

lemma GetCurrentResources_written:
  "GetCurrentResources cl = Inr (cm, resources, allocations) \<Longrightarrow>
   nodelist cl' = Inr (cm\<lparr>allocationsData := Inr a\<rparr>) \<Longrightarrow>
   GetCurrentResources cl' = Inr (cm\<lparr>allocationsData := Inr a\<rparr>, resources, a)"
  by (auto simp add: GetCurrentResources_def split: sum.splits)

lemma AllocateNode_writes:
  assumes "AllocateNode api nodepool cl = (err, cl')"
  shows "\<exists>ws. ledgerWrites cl' = ledgerWrites cl @ ws \<and>
      length ws \<le> length (SpecNodeGroup nodepool) \<and>
      (case GetCurrentResources cl of
         Inl e \<Rightarrow> ws = []
       | Inr (cm, resources, allocations) \<Rightarrow>
           grownByFreeNodes resources (snd (cloudEntry (SpecCloudID nodepool) allocations)) ws) \<and>
      ledger cl' = (if ws = [] then ledger cl else last ws) \<and>
      (ws = [] \<longrightarrow> nodelist cl' = nodelist cl)"
proof (cases "GetCurrentResources cl")
  case (Inl e)
  with assms have "cl' = cl" by (simp add: AllocateNode_def)
  with Inl show ?thesis by (intro exI [of _ "[]"]) simp
next
  case (Inr t)
  then obtain cm resources allocations where
    load: "GetCurrentResources cl = Inr (cm, resources, allocations)" by (cases t) auto
  obtain i a where entry: "cloudEntry (SpecCloudID nodepool) allocations = (i, a)"
    by (cases "cloudEntry (SpecCloudID nodepool) allocations")
  with assms load
  have "allocateGroups api (SpecCloudID nodepool) cm resources i (SpecNodeGroup nodepool) a cl
          = (err, cl')"
    by (simp add: AllocateNode_def)
  from allocateGroups_writes [OF this] obtain ws where ws:
    "ledgerWrites cl' = ledgerWrites cl @ ws" "length ws \<le> length (SpecNodeGroup nodepool)"
    "grownByFreeNodes resources a ws"
    "nodelist cl' = (if ws = [] then nodelist cl
                     else Inr (cm\<lparr>allocationsData := Inr (last ws)\<rparr>))"
    by blast
  from ws(4) have "ledger cl' = (if ws = [] then ledger cl else last ws)"
    by (simp add: ledger_def)
  with ws load entry show ?thesis by (intro exI [of _ ws]) simp
qed

lemma AllocateNode_no_double_alloc:
  assumes "no_double_alloc (ledger cl)"
  shows "no_double_alloc (ledger (snd (AllocateNode api nodepool cl)))"
proof -
  obtain err cl' where res: "AllocateNode api nodepool cl = (err, cl')"
    by (cases "AllocateNode api nodepool cl")
  from AllocateNode_writes [OF res] obtain ws where ws:
    "case GetCurrentResources cl of
       Inl e \<Rightarrow> ws = []
     | Inr (cm, resources, allocations) \<Rightarrow>
         grownByFreeNodes resources (snd (cloudEntry (SpecCloudID nodepool) allocations)) ws"
    "ledger cl' = (if ws = [] then ledger cl else last ws)"
    by blast
  show ?thesis
  proof (cases "ws = []")
    case True
    with ws(2) assms res show ?thesis by simp
  next
    case False
    with ws(1) obtain cm resources allocations where
      load: "GetCurrentResources cl = Inr (cm, resources, allocations)"
      and grown: "grownByFreeNodes resources (snd (cloudEntry (SpecCloudID nodepool) allocations)) ws"
      by (cases "GetCurrentResources cl") auto
    from assms have "no_double_alloc allocations"
      using GetCurrentResources_Inr [OF load] by simp
    then have "no_double_alloc (snd (cloudEntry (SpecCloudID nodepool) allocations))"
      by (rule no_double_alloc_cloudEntry)
    from grownByFreeNodes_no_double_alloc [OF grown this, of "last ws"] False
    have "no_double_alloc (last ws)" by simp
    with ws(2) False res show ?thesis by simp
  qed
qed

lemma releaseNodes_frame:
  "releaseNodes api names cl = (e, cl') \<Longrightarrow>
     nodelist cl' = nodelist cl \<and> ledgerWrites cl' = ledgerWrites cl"
proof (induction names arbitrary: cl)
  case Nil
  then show ?case by simp
next
  case (Cons n rest)
  obtain e1 cl1 where s1: "DeleteBMCSecret api n cl = (e1, cl1)"
    by (cases "DeleteBMCSecret api n cl")
  obtain e2 cl2 where s2: "DeleteNode api n cl1 = (e2, cl2)"
    by (cases "DeleteNode api n cl1")
  note f1 = DeleteBMCSecret_frame [OF s1] and f2 = DeleteNode_frame [OF s2]
  show ?case
  proof (cases e1)
    case (Some x)
    with Cons.prems s1 f1 show ?thesis by simp
  next
    case None
    show ?thesis
    proof (cases e2)
      case (Some x)
      with Cons.prems s1 f1 s2 f2 \<open>e1 = None\<close> show ?thesis by simp
    next
      case e2: None
      with Cons.prems s1 s2 None have "releaseNodes api rest cl2 = (e, cl')" by simp
      from Cons.IH [OF this] f1 f2 show ?thesis by simp
    qed
  qed
qed

lemma releaseGroups_frame:
  "releaseGroups api cloud groupnames cl = (e, cl') \<Longrightarrow>
     nodelist cl' = nodelist cl \<and> ledgerWrites cl' = ledgerWrites cl"
proof (induction groupnames arbitrary: cl)
  case Nil
  then show ?case by simp
next
  case (Cons g rest)
  obtain e1 cl1 where s1: "releaseNodes api (groupNodes cloud g) cl = (e1, cl1)"
    by (cases "releaseNodes api (groupNodes cloud g) cl")
  note f1 = releaseNodes_frame [OF s1]
  show ?case
  proof (cases e1)
    case (Some x)
    with Cons.prems s1 f1 show ?thesis by simp
  next
    case None
    with Cons.prems s1 have "releaseGroups api cloud rest cl1 = (e, cl')" by simp
    from Cons.IH [OF this] f1 show ?thesis by simp
  qed
qed

lemma ReleaseNodePool_result:
  assumes "ReleaseNodePool api nodepool cl = (err, cl')"
  shows "(nodelist cl' = nodelist cl \<and> ledgerWrites cl' = ledgerWrites cl \<and>
          (err = None \<longrightarrow> cl' = cl \<and>
             (\<exists>cm resources allocations. GetCurrentResources cl = Inr (cm, resources, allocations) \<and>
                findCloud (SpecCloudID nodepool) (Clouds allocations) = None))) \<or>
         (\<exists>cm resources allocations index.
            GetCurrentResources cl = Inr (cm, resources, allocations) \<and>
            findCloud (SpecCloudID nodepool) (Clouds allocations) = Some index \<and>
            err = None \<and>
            nodelist cl' = Inr (cm\<lparr>allocationsData :=
              Inr (allocations\<lparr>Clouds := deleteAt index (Clouds allocations)\<rparr>)\<rparr>) \<and>
            ledgerWrites cl' = ledgerWrites cl @
              [allocations\<lparr>Clouds := deleteAt index (Clouds allocations)\<rparr>])"
proof (cases "GetCurrentResources cl")
  case (Inl e)
  with assms show ?thesis by (auto simp add: ReleaseNodePool_def)
next
  case (Inr t)
  then obtain cm resources allocations where
    load: "GetCurrentResources cl = Inr (cm, resources, allocations)" by (cases t) auto
  show ?thesis
  proof (cases "findCloud (SpecCloudID nodepool) (Clouds allocations)")
    case None
    with assms load show ?thesis by (auto simp add: ReleaseNodePool_def)
  next
    case (Some index)
    obtain e1 cl1 where s1:
      "releaseGroups api (Clouds allocations ! index)
         (rangeNodegroups api (Clouds allocations ! index)) cl = (e1, cl1)"
      by (cases "releaseGroups api (Clouds allocations ! index)
         (rangeNodegroups api (Clouds allocations ! index)) cl")
    note f1 = releaseGroups_frame [OF s1]
    show ?thesis
    proof (cases e1)
      case failed: (Some x)
      with assms load Some s1 f1 show ?thesis by (auto simp add: ReleaseNodePool_def)
    next
      case None
      with assms load Some s1
      have "updateConfigmap api cm (allocations\<lparr>Clouds := deleteAt index (Clouds allocations)\<rparr>) cl1
              = (err, cl')"
        by (simp add: ReleaseNodePool_def)
      from updateConfigmap_result [OF this]
      consider x where "err = Some (FailedToUpdateConfigmap x)" "cl' = cl1"
        | "err = None"
          "nodelist cl' = Inr (cm\<lparr>allocationsData :=
              Inr (allocations\<lparr>Clouds := deleteAt index (Clouds allocations)\<rparr>)\<rparr>)"
          "ledgerWrites cl' = ledgerWrites cl1 @
              [allocations\<lparr>Clouds := deleteAt index (Clouds allocations)\<rparr>]"
        by blast
      then show ?thesis
      proof cases
        case 1
        with f1 show ?thesis by simp
      next
        case 2
        from 2(3) f1 have "ledgerWrites cl' = ledgerWrites cl @
              [allocations\<lparr>Clouds := deleteAt index (Clouds allocations)\<rparr>]"
          by simp
        with load Some 2(1,2) show ?thesis by blast
      qed
    qed
  qed
qed

lemma set_deleteAt: "set (deleteAt i xs) \<subseteq> set xs"
  by (auto simp add: deleteAt_def dest: in_set_takeD in_set_dropD)

lemma ReleaseNodePool_no_double_alloc:
  assumes "no_double_alloc (ledger cl)"
  shows "no_double_alloc (ledger (snd (ReleaseNodePool api nodepool cl)))"
proof -
  obtain err cl' where res: "ReleaseNodePool api nodepool cl = (err, cl')"
    by (cases "ReleaseNodePool api nodepool cl")
  from ReleaseNodePool_result [OF res]
  consider "nodelist cl' = nodelist cl"
    | cm resources allocations index where
        "GetCurrentResources cl = Inr (cm, resources, allocations)"
        "nodelist cl' = Inr (cm\<lparr>allocationsData :=
              Inr (allocations\<lparr>Clouds := deleteAt index (Clouds allocations)\<rparr>)\<rparr>)"
    by auto
  then show ?thesis
  proof cases
    case 1
    with assms res show ?thesis by (simp add: ledger_def)
  next
    case 2
    from 2(1) assms have "no_double_alloc allocations"
      using GetCurrentResources_Inr [OF 2(1)] by simp
    then have "no_double_alloc (allocations\<lparr>Clouds := deleteAt index (Clouds allocations)\<rparr>)"
      by (rule no_double_alloc_subset) (simp add: set_deleteAt)
    with 2(2) res show ?thesis by (simp add: ledger_def)
  qed
qed

lemma run_no_double_alloc:
  "no_double_alloc (ledger cl) \<Longrightarrow> no_double_alloc (ledger (run steps cl))"
proof (induction steps arbitrary: cl)
  case Nil
  then show ?case by simp
next
  case (Cons s rest)
  show ?case
  proof (cases s)
    case (Allocate api nodepool)
    with Cons.IH [OF AllocateNode_no_double_alloc [OF Cons.prems, of api nodepool]]
    show ?thesis by simp
  next
    case (Release api nodepool)
    with Cons.IH [OF ReleaseNodePool_no_double_alloc [OF Cons.prems, of api nodepool]]
    show ?thesis by simp
  qed
qed

subsection \<open>The service on the small inventory\<close>

lemmas AllocateNode_defs = AllocateNode_def cloudEntry_def allocateGroup_def allocateChosen_def
  updateConfigmap_def CreateBMCSecret_def CreateNode_def UpdateNodeStatus_def record_event_def
  remaining_def appendNode_def getFreeNodesInProfile_def bmcSecretName_def groupNodes_def
  Let_def lookup_default_empty lookup_default_update' lookup_update'

lemma inuse_one_empty:
  "inuse \<lparr>Clouds = [\<lparr>CloudID = c, Nodegroups = Some Mapping.empty\<rparr>]\<rparr> = {}"
  by (simp add: inuse_def groupKeys_def)

lemma string_of_nat_0: "string_of_nat 0 = ''0''"
  by (simp add: string_of_nat.simps char_of_def bit_0)

lemma string_of_nat_2: "string_of_nat 2 = ''2''"
  by (simp add: string_of_nat.simps char_of_def bit_0)

lemma CreateNodePool_pool_pq:
  "CreateNodePool api_ok pool_pq cluster0 = Some (NotEnoughFreeResources ''Q'' 0)"
  by (simp add: CreateNodePool_def GetCurrentResources_cluster0 pool_pq_def pool2_def api_ok_def
      getFreeNodesInProfile_def inuse_Nil catalog2_def node_P_def lookup_update')

lemma handleNodePoolCreate_pool_pq:
  "handleNodePoolCreate api_ok pool_pq cluster0 =
     ((doNotRequeue, None), pool_pq_failed,
      cluster_failed)"
  by (simp add: cluster_failed_def handleNodePoolCreate_def CreateNodePool_pool_pq SetStatusCondition_def
      UpdateK8sCRStatus_def pool_pq_failed_def Provisioned_def Failed_def string_of_nat_0
      Let_def)
    (simp add: pool_pq_def pool2_def api_ok_def)

lemma GetCurrentResources_cluster_failed:
  "GetCurrentResources cluster_failed = Inr (cm0, catalog2, \<lparr>Clouds = []\<rparr>)"
  by (simp add: GetCurrentResources_def cluster_failed_def record_event_def cluster0_def cm0_def)

lemma AllocateNode_pool_pq:
  "fst (AllocateNode api_ok pool_pq_failed cluster_failed) =
     Some (NotEnoughFreeResourcesRemaining ''Q'') \<and>
   ledgerWrites (snd (AllocateNode api_ok pool_pq_failed cluster_failed)) =
     [\<lparr>Clouds = [\<lparr>CloudID = ''cloud'',
        Nodegroups = Some (Mapping.update ''master'' [''n0''] Mapping.empty)\<rparr>]\<rparr>]"
  by (simp add: AllocateNode_defs GetCurrentResources_cluster_failed pool_pq_failed_def pool_pq_def
      pool2_def api_ok_def inuse_one_empty catalog2_def node_P_def ledgerWrites_def)
    (simp add: cluster_failed_def record_event_def cluster0_def inuse_def groupKeys_def)


lemma determineAction_pool_pq_failed: "determineAction pool_pq_failed = NodePoolFSMProcessing"
  by (simp add: determineAction_def FindStatusCondition_def pool_pq_failed_def Provisioned_def)

lemma IsNodeFullyAllocated_pool_pq:
  "IsNodeFullyAllocated api_ok pool_pq_failed cluster_failed = (False, None)"
  by (simp add: IsNodeFullyAllocated_def GetCurrentResources_cluster_failed)

lemma SpecNodeGroup_pool_pq_failed:
  "SpecNodeGroup pool_pq_failed =
     [\<lparr>Name = ''master'', GroupHwProfile = ''P'', Size = 1\<rparr>,
      \<lparr>Name = ''worker'', GroupHwProfile = ''Q'', Size = 1\<rparr>]"
  by (simp add: pool_pq_failed_def pool_pq_def)

lemma handleNodePoolObject_pool_pq_failed:
  "fst (handleNodePoolObject api_ok pool_pq_failed cluster_failed) =
     requeueWithError (FailedCheckNodePoolProgress (FailedToAllocateNode
       (NotEnoughFreeResourcesRemaining ''Q''))) \<and>
   ledgerWrites (snd (snd (handleNodePoolObject api_ok pool_pq_failed cluster_failed))) =
     [\<lparr>Clouds = [\<lparr>CloudID = ''cloud'',
        Nodegroups = Some (Mapping.update ''master'' [''n0''] Mapping.empty)\<rparr>]\<rparr>]"
  using AllocateNode_pool_pq
  by (simp add: handleNodePoolObject_def determineAction_pool_pq_failed
      handleNodePoolProcessing_def CheckNodePoolProgress_def IsNodeFullyAllocated_pool_pq
      SpecNodeGroup_pool_pq_failed case_prod_unfold split: option.splits)

lemma inuse_master_n0:
  "inuse \<lparr>Clouds = [\<lparr>CloudID = c,
     Nodegroups = Some (Mapping.update ''master'' [''n0''] Mapping.empty)\<rparr>]\<rparr> = {''n0''}"
  by (simp add: inuse_def groupKeys_def groupNodes_def lookup_default_update')

lemma cloudEntry_empty:
  "cloudEntry ''cloud'' \<lparr>Clouds = []\<rparr> =
     (0, \<lparr>Clouds = [\<lparr>CloudID = ''cloud'', Nodegroups = Some Mapping.empty\<rparr>]\<rparr>)"
  by (simp add: cloudEntry_def)

lemma AllocateNode_pool11: "AllocateNode api_ok pool11 cluster0 = (None, cluster_n0_n1)"
  by (simp add: AllocateNode_defs GetCurrentResources_cluster0 pool11_def pool2_def api_ok_def
      inuse_one_empty catalog2_def node_P_def inuse_master_n0)
    (simp add: cluster0_def cluster_n0_n1_def ledger_n0_def ledger_n0_n1_def node_P_def)

lemma ledgerWrites_cluster_n0_n1: "ledgerWrites cluster_n0_n1 = [ledger_n0, ledger_n0_n1]"
  by (simp add: ledgerWrites_def cluster_n0_n1_def)

lemma ledger_cluster_n0_n1: "ledger cluster_n0_n1 = ledger_n0_n1"
  by (simp add: ledger_def cluster_n0_n1_def)

lemma ledger_cluster0: "ledger cluster0 = \<lparr>Clouds = []\<rparr>"
  by (simp add: ledger_def cluster0_def cm0_def)

lemma ledgerWrites_cluster0: "ledgerWrites cluster0 = []"
  by (simp add: ledgerWrites_def cluster0_def)



lemma range_of_catalog2:
  "range_of [''n0'', ''n1''] (Nodes catalog2)" "range_of [''n1'', ''n0''] (Nodes catalog2)"
  by (auto simp add: range_of_def catalog2_def)

lemma free_catalog2:
  "getFreeNodesInProfile [''n0'', ''n1''] catalog2 \<lparr>Clouds = []\<rparr> ''P'' = [''n0'', ''n1'']"
  "getFreeNodesInProfile [''n1'', ''n0''] catalog2 \<lparr>Clouds = []\<rparr> ''P'' = [''n1'', ''n0'']"
  by (simp_all add: getFreeNodesInProfile_def inuse_Nil catalog2_def node_P_def lookup_update')

lemma AllocateNode_pool1:
  "ledger (snd (AllocateNode api_ok pool1 cluster0)) = ledger_n0"
  "ledger (snd (AllocateNode api_rev pool1 cluster0)) = ledger_n1"
  by (simp_all add: AllocateNode_defs GetCurrentResources_cluster0 pool1_def pool2_def
      api_rev_def api_ok_def inuse_one_empty catalog2_def node_P_def ledger_def ledger_n0_def
      ledger_n1_def)

subsection \<open>No double allocation\<close>

text \<open>
  C1 (no double allocation). When every node name of the persisted ledger stands under
  at most one pair of a cloud identity and a group, the same holds of the persisted
  ledger after any sequence of calls of \<^verbatim>\<open>AllocateNode\<close> and \<^verbatim>\<open>ReleaseNodePool\<close>,
  whatever the API server answers during the calls and whatever the calls return (a call
  that fails half way leaves a ledger with the property). And the ledgers that one call
  of \<^verbatim>\<open>AllocateNode\<close> writes to the ConfigMap form a chain from the ledger that the
  call has read (with an empty entry for the cloud when it had none, which takes no
  name into use): each of them is the ledger before it with one node name appended,
  a key of the inventory that is not among the names in use in the ledger before it;
  the ledger that the call leaves is the last of them, or the one it found.
\<close>

theorem no_double_allocation:
  "(no_double_alloc (ledger cl) \<longrightarrow> no_double_alloc (ledger (run steps cl))) \<and>
   (\<forall>err cl'. AllocateNode api nodepool cl = (err, cl') \<longrightarrow>
      (\<exists>ws. ledgerWrites cl' = ledgerWrites cl @ ws \<and>
         (case GetCurrentResources cl of
            Inl e \<Rightarrow> ws = []
          | Inr (cm, resources, allocations) \<Rightarrow>
              grownByFreeNodes resources
                (snd (cloudEntry (SpecCloudID nodepool) allocations)) ws \<and>
              inuse (snd (cloudEntry (SpecCloudID nodepool) allocations)) = inuse allocations) \<and>
         ledger cl' = (if ws = [] then ledger cl else last ws)))"
proof (intro conjI allI impI)
  assume "no_double_alloc (ledger cl)"
  then show "no_double_alloc (ledger (run steps cl))" by (rule run_no_double_alloc)
next
  fix err cl'
  assume "AllocateNode api nodepool cl = (err, cl')"
  from AllocateNode_writes [OF this] obtain ws where ws:
    "ledgerWrites cl' = ledgerWrites cl @ ws"
    "case GetCurrentResources cl of
       Inl e \<Rightarrow> ws = []
     | Inr (cm, resources, allocations) \<Rightarrow>
         grownByFreeNodes resources (snd (cloudEntry (SpecCloudID nodepool) allocations)) ws"
    "ledger cl' = (if ws = [] then ledger cl else last ws)"
    by blast
  from ws(2) have "case GetCurrentResources cl of
       Inl e \<Rightarrow> ws = []
     | Inr (cm, resources, allocations) \<Rightarrow>
         grownByFreeNodes resources (snd (cloudEntry (SpecCloudID nodepool) allocations)) ws \<and>
         inuse (snd (cloudEntry (SpecCloudID nodepool) allocations)) = inuse allocations"
    by (auto simp add: inuse_cloudEntry split: sum.splits)
  with ws(1,3) show "\<exists>ws. ledgerWrites cl' = ledgerWrites cl @ ws \<and>
         (case GetCurrentResources cl of
            Inl e \<Rightarrow> ws = []
          | Inr (cm, resources, allocations) \<Rightarrow>
              grownByFreeNodes resources
                (snd (cloudEntry (SpecCloudID nodepool) allocations)) ws \<and>
              inuse (snd (cloudEntry (SpecCloudID nodepool) allocations)) = inuse allocations) \<and>
         ledger cl' = (if ws = [] then ledger cl else last ws)"
    by blast
qed

theorem no_double_allocation_witness:
  "no_double_alloc (ledger cluster0) \<and>
   ledger (run [Allocate api_ok pool11] cluster0) = ledger_n0_n1 \<and>
   no_double_alloc ledger_n0_n1 \<and>
   AllocateNode api_ok pool11 cluster0 = (None, cluster_n0_n1) \<and>
   ledgerWrites cluster_n0_n1 = ledgerWrites cluster0 @ [ledger_n0, ledger_n0_n1] \<and>
   grownByFreeNodes catalog2
     \<lparr>Clouds = [\<lparr>CloudID = ''cloud'', Nodegroups = Some Mapping.empty\<rparr>]\<rparr>
     [ledger_n0, ledger_n0_n1]"
proof -
  have 1: "no_double_alloc (ledger cluster0)"
    by (simp add: ledger_cluster0 no_double_alloc_empty)
  have 2: "ledger (run [Allocate api_ok pool11] cluster0) = ledger_n0_n1"
    by (simp add: AllocateNode_pool11 ledger_cluster_n0_n1)
  have 3: "SpecCloudID pool11 = ''cloud''" by (simp add: pool11_def pool2_def)
  from no_double_allocation [of cluster0 "[Allocate api_ok pool11]" api_ok pool11] 1 2 3
  show ?thesis
    by (simp add: AllocateNode_pool11 ledgerWrites_cluster_n0_n1 ledgerWrites_cluster0
        GetCurrentResources_cluster0 cloudEntry_empty ledger_cluster_n0_n1
        del: grownByFreeNodes.simps)
qed

subsection \<open>Admission\<close>

text \<open>
  C2 (feasibility is conservative). The claim: the admission check never reports success
  when the sizes of the groups of one profile add up to more than the nodes of that
  profile. The loop of \<^verbatim>\<open>CreateNodePool\<close> and \<^verbatim>\<open>ProcessNewNodePool\<close> compares every
  group on its own with the free nodes of its profile and never adds up the groups that
  share a profile. On the inventory of two nodes of profile \<open>P\<close> and an empty ledger, the
  request of two groups of profile \<open>P\<close> and size 2 each asks for four nodes; both
  functions return no error.
\<close>

theorem CreateNodePool_oversubscribed:
  "CreateNodePool api_ok pool2 cluster0 = None \<and>
   ProcessNewNodePool api_ok pool2 cluster0 = None \<and>
   map (\<lambda>g. (GroupHwProfile g, sint (Size g))) (SpecNodeGroup pool2) = [(''P'', 2), (''P'', 2)] \<and>
   Mapping.keys (Nodes catalog2) = {''n0'', ''n1''}"
  by (simp add: CreateNodePool_pool2 ProcessNewNodePool_pool2)
    (simp add: pool2_def catalog2_def insert_commute)

subsection \<open>The order of the free nodes\<close>

lemma range_of_keys: "range_of iter m \<Longrightarrow> n \<in> set iter \<longleftrightarrow> n \<in> Mapping.keys m"
  by (simp add: range_of_def)

lemma free_set:
  assumes "range_of iter (Nodes resources)"
  shows "set (getFreeNodesInProfile iter resources a p) =
     {n \<in> Mapping.keys (Nodes resources).
        (\<exists>node. Mapping.lookup (Nodes resources) n = Some node \<and> HwProfile node = p) \<and>
        n \<notin> inuse a}"
  using assms by (auto simp add: free_mem range_of_def)

lemma free_distinct:
  "range_of iter (Nodes resources) \<Longrightarrow> distinct (getFreeNodesInProfile iter resources a p)"
  by (simp add: getFreeNodesInProfile_def range_of_def)

lemma free_filter:
  assumes "range_of iter (Nodes resources)" and "range_of iter' (Nodes resources)"
  shows "getFreeNodesInProfile iter resources a p =
     filter (\<lambda>n. n \<in> set (getFreeNodesInProfile iter' resources a p)) iter"
proof -
  have "getFreeNodesInProfile iter resources a p =
      filter (\<lambda>n. n \<in> set (getFreeNodesInProfile iter resources a p)) iter"
    unfolding getFreeNodesInProfile_def by (rule filter_cong) auto
  with free_set [OF assms(1)] free_set [OF assms(2)] show ?thesis by simp
qed

text \<open>
  C3 (deterministic selection), as the claim states it: on the same inventory and ledger
  \<^verbatim>\<open>getFreeNodesInProfile\<close> gives the same list on every run and \<^verbatim>\<open>AllocateNode\<close>
  picks the same node, the free node with the smallest name. It fails: the list is
  built by a \<^verbatim>\<open>range\<close> over the Go map of the nodes, whose order the runtime chooses
  at every loop, and nothing sorts it. On the inventory of \<open>n0\<close> and \<open>n1\<close> both walks
  visit every key once; one gives the list \<open>n0, n1\<close> and the node \<open>n0\<close>, the other the
  list \<open>n1, n0\<close> and the node \<open>n1\<close>, which is not the smallest name.
\<close>

theorem getFreeNodesInProfile_order:
  "range_of [''n0'', ''n1''] (Nodes catalog2) \<and> range_of [''n1'', ''n0''] (Nodes catalog2) \<and>
   getFreeNodesInProfile [''n0'', ''n1''] catalog2 \<lparr>Clouds = []\<rparr> ''P'' = [''n0'', ''n1''] \<and>
   getFreeNodesInProfile [''n1'', ''n0''] catalog2 \<lparr>Clouds = []\<rparr> ''P'' = [''n1'', ''n0''] \<and>
   rangeNodes api_ok \<lparr>Clouds = []\<rparr> ''P'' = [''n0'', ''n1''] \<and>
   rangeNodes api_rev \<lparr>Clouds = []\<rparr> ''P'' = [''n1'', ''n0''] \<and>
   ledger (snd (AllocateNode api_ok pool1 cluster0)) = ledger_n0 \<and>
   ledger (snd (AllocateNode api_rev pool1 cluster0)) = ledger_n1 \<and>
   groupNodes (Clouds ledger_n0 ! 0) ''master'' = [''n0''] \<and>
   groupNodes (Clouds ledger_n1 ! 0) ''master'' = [''n1''] \<and>
   (''n0'' :: string) < ''n1''"
  by (simp add: range_of_catalog2 free_catalog2 AllocateNode_pool1)
    (simp add: api_rev_def api_ok_def ledger_n0_def ledger_n1_def less_char_def
      groupNodes_def lookup_default_update')

text \<open>
  C3, amended: on the same inventory and ledger, whatever the order in which the map of
  the nodes is walked, \<^verbatim>\<open>getFreeNodesInProfile\<close> gives the same nodes: the keys of the
  inventory that have the profile and are not in use, each once. The order of the list
  is the order of the walk, and two walks give two arrangements of the same nodes.
  \<^verbatim>\<open>AllocateNode\<close> picks the first node of the list, that is the first free node in
  the order of its walk; no rule on the names breaks ties.
\<close>

theorem getFreeNodesInProfile_walk:
  "(range_of iter (Nodes resources) \<and> range_of iter' (Nodes resources) \<longrightarrow>
      set (getFreeNodesInProfile iter resources allocations profname) =
        {n \<in> Mapping.keys (Nodes resources).
           (\<exists>node. Mapping.lookup (Nodes resources) n = Some node \<and> HwProfile node = profname) \<and>
           n \<notin> inuse allocations} \<and>
      mset (getFreeNodesInProfile iter resources allocations profname) =
        mset (getFreeNodesInProfile iter' resources allocations profname) \<and>
      getFreeNodesInProfile iter resources allocations profname =
        filter (\<lambda>n. n \<in> set (getFreeNodesInProfile iter' resources allocations profname)) iter) \<and>
   (\<forall>err allocations' cl'.
      allocateGroup api cloudID cm resources i nodegroup allocations cl = (err, allocations', cl') \<and>
      allocations' \<noteq> allocations \<longrightarrow>
      (\<exists>n others.
         getFreeNodesInProfile (rangeNodes api allocations (GroupHwProfile nodegroup))
           resources allocations (GroupHwProfile nodegroup) = n # others \<and>
         appendNode i (Name nodegroup) n allocations = Some allocations'))"
proof (intro conjI allI impI)
  assume r: "range_of iter (Nodes resources) \<and> range_of iter' (Nodes resources)"
  then show "set (getFreeNodesInProfile iter resources allocations profname) =
        {n \<in> Mapping.keys (Nodes resources).
           (\<exists>node. Mapping.lookup (Nodes resources) n = Some node \<and> HwProfile node = profname) \<and>
           n \<notin> inuse allocations}"
    by (simp add: free_set)
  from r have "set (getFreeNodesInProfile iter resources allocations profname) =
      set (getFreeNodesInProfile iter' resources allocations profname)"
    by (simp add: free_set)
  with r show "mset (getFreeNodesInProfile iter resources allocations profname) =
        mset (getFreeNodesInProfile iter' resources allocations profname)"
    by (simp add: set_eq_iff_mset_eq_distinct [symmetric] free_distinct)
  from r show "getFreeNodesInProfile iter resources allocations profname =
        filter (\<lambda>n. n \<in> set (getFreeNodesInProfile iter' resources allocations profname)) iter"
    by (simp add: free_filter)
next
  fix err allocations' cl'
  assume "allocateGroup api cloudID cm resources i nodegroup allocations cl = (err, allocations', cl') \<and>
      allocations' \<noteq> allocations"
  then have step: "allocateGroup api cloudID cm resources i nodegroup allocations cl = (err, allocations', cl')"
    and changed: "allocations' \<noteq> allocations" by simp_all
  from allocateGroup_result [OF step] changed
  show "\<exists>n others.
         getFreeNodesInProfile (rangeNodes api allocations (GroupHwProfile nodegroup))
           resources allocations (GroupHwProfile nodegroup) = n # others \<and>
         appendNode i (Name nodegroup) n allocations = Some allocations'"
    by blast
qed

theorem getFreeNodesInProfile_walk_witness:
  "range_of [''n0'', ''n1''] (Nodes catalog2) \<and> range_of [''n1'', ''n0''] (Nodes catalog2) \<and>
   set (getFreeNodesInProfile [''n0'', ''n1''] catalog2 \<lparr>Clouds = []\<rparr> ''P'') = {''n0'', ''n1''} \<and>
   mset (getFreeNodesInProfile [''n0'', ''n1''] catalog2 \<lparr>Clouds = []\<rparr> ''P'') =
     mset (getFreeNodesInProfile [''n1'', ''n0''] catalog2 \<lparr>Clouds = []\<rparr> ''P'')"
  using getFreeNodesInProfile_walk [of "[''n0'', ''n1'']" catalog2 "[''n1'', ''n0'']"
      "\<lparr>Clouds = []\<rparr>" "''P''"] range_of_catalog2
  by (simp add: free_catalog2)

subsection \<open>The writes of one call of AllocateNode\<close>




subsection \<open>Not enough free nodes\<close>






subsection \<open>The state machine of the reconciler\<close>

text \<open>
  C8 (state classification on create), as the claim states it: a NodePool with no
  Provisioned condition takes the action Create, whatever other conditions its status
  holds, and a failed admission sets the condition Failed and ends the reconciliation of
  the request. Both parts fail.
  \<^item> \<^verbatim>\<open>determineAction\<close> answers Create only for an empty list of conditions. A status
    whose only condition has the type \<open>Ready\<close> has no Provisioned condition, and the
    action is Noop: the object is returned as it is.
  \<^item> The request of a group of profile \<open>P\<close> and a group of profile \<open>Q\<close> fails its
    admission (no node has profile \<open>Q\<close>) and gets the condition Provisioned, false, with
    the reason Failed. \<^verbatim>\<open>determineAction\<close> reads any Provisioned condition that is not
    true as Processing: the next reconciliation of the request calls \<^verbatim>\<open>AllocateNode\<close>,
    which writes a node of profile \<open>P\<close> into the ledger before it fails on \<open>Q\<close>, and
    asks for a retry.
\<close>

theorem determineAction_other_conditions:
  "FindStatusCondition (StatusConditions pool_ready) Provisioned = None \<and>
   determineAction pool_ready = NodePoolFSMNoop \<and>
   handleNodePoolObject api_ok pool_ready cluster0 = ((doNotRequeue, None), pool_ready, cluster0) \<and>
   StatusConditions pool_pq = [] \<and>
   CreateNodePool api_ok pool_pq cluster0 = Some (NotEnoughFreeResources ''Q'' 0) \<and>
   handleNodePoolObject api_ok pool_pq cluster0 =
     ((doNotRequeue, None), pool_pq_failed, cluster_failed) \<and>
   determineAction pool_pq_failed = NodePoolFSMProcessing \<and>
   fst (handleNodePoolObject api_ok pool_pq_failed cluster_failed) =
     requeueWithError (FailedCheckNodePoolProgress (FailedToAllocateNode
       (NotEnoughFreeResourcesRemaining ''Q''))) \<and>
   ledgerWrites (snd (snd (handleNodePoolObject api_ok pool_pq_failed cluster_failed))) =
     [\<lparr>Clouds = [\<lparr>CloudID = ''cloud'',
        Nodegroups = Some (Mapping.update ''master'' [''n0''] Mapping.empty)\<rparr>]\<rparr>]"
proof -
  have "FindStatusCondition (StatusConditions pool_ready) Provisioned = None"
    by (simp add: FindStatusCondition_def pool_ready_def pool2_def Provisioned_def)
  moreover have "determineAction pool_ready = NodePoolFSMNoop"
    by (simp add: determineAction_def FindStatusCondition_def pool_ready_def pool2_def
        Provisioned_def)
  moreover have "handleNodePoolObject api_ok pool_ready cluster0 =
      ((doNotRequeue, None), pool_ready, cluster0)"
    by (simp add: determineAction_def handleNodePoolObject_def FindStatusCondition_def
        pool_ready_def pool2_def Provisioned_def)
  moreover have "StatusConditions pool_pq = []"
    by (simp add: pool_pq_def pool2_def)
  moreover have "handleNodePoolObject api_ok pool_pq cluster0 =
      ((doNotRequeue, None), pool_pq_failed, cluster_failed)"
    by (simp add: handleNodePoolObject_def determineAction_def handleNodePoolCreate_pool_pq)
      (simp add: pool_pq_def pool2_def)
  ultimately show ?thesis
    using CreateNodePool_pool_pq determineAction_pool_pq_failed
      handleNodePoolObject_pool_pq_failed
    by simp
qed

text \<open>
  C8, amended. The action is Create exactly when the status holds no condition at all.
  Then the reconciler runs the admission check over all groups and sets the one condition
  Provisioned, false: with the reason InProgress when the check passes, with the reason
  Failed and the message of \<open>err\<close> when it fails with \<open>err\<close>. It writes the status of the
  object to the API server: when the write is accepted this reconciliation returns with
  no error and no requeue, when it is refused it returns the error and asks for a requeue
  after a minute. A status with conditions none of which is Provisioned gets the action
  Noop, and nothing is written. What later reconciliations do with a failed request is
  no part of the statement.
\<close>

theorem determineAction_create:
  "(determineAction nodepool = NodePoolFSMCreate \<longleftrightarrow> StatusConditions nodepool = []) \<and>
   (StatusConditions nodepool = [] \<longrightarrow>
      handleNodePoolObject api nodepool cl = handleNodePoolCreate api nodepool cl \<and>
      (CreateNodePool api nodepool cl = None \<longrightarrow>
         fst (snd (handleNodePoolCreate api nodepool cl)) =
           nodepool\<lparr>StatusConditions :=
             [\<lparr>Type = Provisioned, Status = ConditionFalse, Reason = InProgress,
               Message = ''Handling creation''\<rparr>]\<rparr>) \<and>
      (\<forall>err. CreateNodePool api nodepool cl = Some err \<longrightarrow>
         fst (snd (handleNodePoolCreate api nodepool cl)) =
           nodepool\<lparr>StatusConditions :=
             [\<lparr>Type = Provisioned, Status = ConditionFalse, Reason = Failed,
               Message = ''Creation request failed: '' @ Error err\<rparr>]\<rparr>) \<and>
      (updateNodePoolStatus api (fst (snd (handleNodePoolCreate api nodepool cl))) = None \<longrightarrow>
         fst (handleNodePoolCreate api nodepool cl) = (doNotRequeue, None) \<and>
         snd (snd (handleNodePoolCreate api nodepool cl)) =
           record_event
             (NodePoolStatusUpdated (fst (snd (handleNodePoolCreate api nodepool cl)))) cl) \<and>
      (\<forall>e. updateNodePoolStatus api (fst (snd (handleNodePoolCreate api nodepool cl))) = Some e \<longrightarrow>
         fst (handleNodePoolCreate api nodepool cl) =
           (requeueWithMediumInterval,
            Some (FailedToUpdateStatusForNodePool (ObjectName nodepool) e)) \<and>
         snd (snd (handleNodePoolCreate api nodepool cl)) = cl)) \<and>
   (StatusConditions nodepool \<noteq> [] \<and>
    FindStatusCondition (StatusConditions nodepool) Provisioned = None \<longrightarrow>
      determineAction nodepool = NodePoolFSMNoop \<and>
      handleNodePoolObject api nodepool cl = ((doNotRequeue, None), nodepool, cl))"
  by (auto simp add: determineAction_def handleNodePoolObject_def handleNodePoolCreate_def
      SetStatusCondition_Nil UpdateK8sCRStatus_def Let_def
      split: option.splits prod.splits)

theorem determineAction_create_witness:
  "StatusConditions pool2 = [] \<and> CreateNodePool api_ok pool2 cluster0 = None \<and>
   determineAction pool2 = NodePoolFSMCreate \<and>
   handleNodePoolObject api_ok pool2 cluster0 =
     ((doNotRequeue, None),
      pool2\<lparr>StatusConditions :=
        [\<lparr>Type = Provisioned, Status = ConditionFalse, Reason = InProgress,
          Message = ''Handling creation''\<rparr>]\<rparr>,
      record_event (NodePoolStatusUpdated (pool2\<lparr>StatusConditions :=
        [\<lparr>Type = Provisioned, Status = ConditionFalse, Reason = InProgress,
          Message = ''Handling creation''\<rparr>]\<rparr>)) cluster0)"
proof -
  have "StatusConditions pool2 = []" by (simp add: pool2_def)
  moreover have "updateNodePoolStatus api_ok np = None" for np by (simp add: api_ok_def)
  ultimately show ?thesis
    using determineAction_create [of pool2 api_ok cluster0] CreateNodePool_pool2
    by (simp add: prod_eq_iff)
qed

subsection \<open>The allocated nodes of a request\<close>

text \<open>
  C10. Where the inventory loads, \<^verbatim>\<open>GetAllocatedNodes\<close> returns the empty list and no
  error for a request whose cloud has no entry in the ledger. Where the cloud has an
  entry, it returns, sorted, the names that the first entry of that cloud records under
  the node groups of the request: the names of the groups of the request, with their
  multiplicities, and no others.
\<close>

theorem GetAllocatedNodes_names:
  assumes "GetCurrentResources cl = Inr (cm, resources, allocations)"
  shows "(SpecCloudID nodepool \<notin> CloudID ` set (Clouds allocations) \<longrightarrow>
            GetAllocatedNodes nodepool cl = Inr []) \<and>
         (SpecCloudID nodepool \<in> CloudID ` set (Clouds allocations) \<longrightarrow>
            (\<exists>i names. findCloud (SpecCloudID nodepool) (Clouds allocations) = Some i \<and>
               i < length (Clouds allocations) \<and>
               CloudID (Clouds allocations ! i) = SpecCloudID nodepool \<and>
               GetAllocatedNodes nodepool cl = Inr names \<and> sorted names \<and>
               mset names = mset (concat (map
                 (\<lambda>nodegroup. groupNodes (Clouds allocations ! i) (Name nodegroup))
                 (SpecNodeGroup nodepool)))))"
proof (cases "findCloud (SpecCloudID nodepool) (Clouds allocations)")
  case None
  with assms have "GetAllocatedNodes nodepool cl = Inr []"
    by (simp add: GetAllocatedNodes_def)
  moreover from None have "SpecCloudID nodepool \<notin> CloudID ` set (Clouds allocations)"
    by (simp add: findCloud_None)
  ultimately show ?thesis by simp
next
  case (Some i)
  then have "i < length (Clouds allocations)"
    "CloudID (Clouds allocations ! i) = SpecCloudID nodepool"
    by (simp_all add: findCloud_Some)
  moreover from Some have "SpecCloudID nodepool \<in> CloudID ` set (Clouds allocations)"
    using findCloud_None [of "SpecCloudID nodepool" "Clouds allocations"] by simp
  ultimately show ?thesis
    using assms Some by (simp add: GetAllocatedNodes_def)
qed

theorem GetAllocatedNodes_names_witness:
  "GetCurrentResources cluster1 = Inr (cm0\<lparr>allocationsData := Inr ledger1\<rparr>, catalog2, ledger1) \<and>
   SpecCloudID pool2 \<in> CloudID ` set (Clouds ledger1) \<and>
   GetAllocatedNodes pool2 cluster1 = Inr [''n0'', ''n1'']"
  using GetAllocatedNodes_names
    [of cluster1 "cm0\<lparr>allocationsData := Inr ledger1\<rparr>" catalog2 ledger1 pool2]
    GetCurrentResources_cluster1 GetAllocatedNodes_cluster1
  by (simp add: ledger1_def pool2_def)

end
